theory Spec2Isabelle
  imports Complex_Main
begin

section \<open>JavaScript values used by the server\<close>

text \<open>
  The noise monitor is JavaScript. The values that reach the code under study are the
  fields of a decoded ingest message: strings (\<open>deviceId\<close>, \<open>tableId\<close>, \<open>soundType\<close>) and
  numbers (\<open>noiseLevel\<close>, the audio features, \<open>timestamp\<close>), each of which may be absent.
  An absent field reads as \<open>undefined\<close>, modelled by \<open>None\<close>. The fields have the types
  the ingest message gives them, as the simulators send them; a JSON value of another
  type in a field (a number for \<open>deviceId\<close>, a string or \<open>null\<close> for \<open>noiseLevel\<close>) and
  JavaScript's coercions of it are outside the model.

  \<^item> \<open>truthy_str\<close>: JavaScript's ToBoolean of a string that may be absent, as used by
    \<open>!x\<close>, \<open>x || y\<close> and \<open>if (x)\<close>: \<open>undefined\<close> and the empty string are falsy. (For a
    number, \<open>undefined\<close> and \<open>0\<close> are falsy; see \<open>num_or\<close> and \<open>time_or\<close> below.)
  \<^item> \<open>js_ge\<close>: the operator \<open>>=\<close> against a number. \<open>undefined\<close> converts to NaN, and
    every comparison with NaN is false.
  \<^item> \<open>dflt\<close>: a default of a destructuring pattern (\<open>x = 0.2\<close>), which applies exactly
    when the value is \<open>undefined\<close>.
\<close>

definition truthy_str :: "string option \<Rightarrow> bool" where
  "truthy_str x = (case x of None \<Rightarrow> False | Some s \<Rightarrow> s \<noteq> [])"

definition js_ge :: "real option \<Rightarrow> real \<Rightarrow> bool" where
  "js_ge x c = (case x of None \<Rightarrow> False | Some r \<Rightarrow> r \<ge> c)"

definition dflt :: "real option \<Rightarrow> real \<Rightarrow> real" where
  "dflt x d = (case x of None \<Rightarrow> d | Some r \<Rightarrow> r)"

subsection \<open>Numbers\<close>

text \<open>
  A JavaScript number is an IEEE 754 binary64 value: a real of the form \<open>m * 2^e\<close> with
  \<open>\<bar>m\<bar> < 2^53\<close> and \<open>-1074 \<le> e \<le> 971\<close>, one of the two infinities, or NaN (the two
  zeros are not told apart: no operation of the program distinguishes them).

  The server only copies the numbers of a message and compares them with the integers
  65, 55 and 0, which is exact; there a numeric field holds the parsed value as the real
  it is (a time, in milliseconds, as an integer). The classifier compares its arguments
  with decimal fractions, which are not binary64 values, and subtracts two of them. So it
  is modelled on \<open>number\<close>, with the literals and the subtraction rounded as the language
  rounds them:

  \<^item> \<open>dbl x\<close> is the binary64 value nearest to the real \<open>x\<close>, a tie going to the value
    with the even significand, and a magnitude that rounds to \<open>2^1024\<close> or more becoming an
    infinity. This is the value of the literal (or of the JSON number) whose decimal
    expansion denotes \<open>x\<close>, and the result of an arithmetic operation whose exact result is
    \<open>x\<close>. On a binary64 value \<open>dbl\<close> changes nothing. The spacing of the binary64 values
    around \<open>x\<close> is \<open>2^(e - 52)\<close> for \<open>2^e \<le> \<bar>x\<bar> < 2^(e + 1)\<close>, and \<open>2^(-1074)\<close> below
    \<open>2^(-1022)\<close>; \<open>exponent\<close> finds \<open>e\<close> by bisection.
  \<^item> \<open>n_lt\<close> and \<open>n_gt\<close> are \<open><\<close> and \<open>>\<close>; a comparison with NaN is false.
  \<^item> \<open>n_sub\<close> is \<open>-\<close> and \<open>n_abs\<close> is \<open>Math.abs\<close>.
  \<^item> \<open>to_number\<close> is the number an argument is compared as (\<open>undefined\<close> converts to
    NaN), and \<open>number_or\<close> the value of a parameter with a default.
\<close>

datatype number = Fin real | PosInf | NegInf | NaN

definition pow2 :: "int \<Rightarrow> real" where
  "pow2 e = (if 0 \<le> e then 2 ^ nat e else 1 / 2 ^ nat (- e))"

fun exponent_from :: "real \<Rightarrow> int \<Rightarrow> int list \<Rightarrow> int" where
  "exponent_from a lo [] = lo"
| "exponent_from a lo (s # ss) =
     (if pow2 (lo + s) \<le> a then exponent_from a (lo + s) ss else exponent_from a lo ss)"

definition exponent :: "real \<Rightarrow> int" where
  "exponent a = exponent_from a (- 1022) [1024, 512, 256, 128, 64, 32, 16, 8, 4, 2, 1]"

definition ties_to_even :: "int \<Rightarrow> real \<Rightarrow> int" where
  "ties_to_even f r =
     (if r < 1 / 2 then f else if 1 / 2 < r then f + 1 else if even f then f else f + 1)"

definition nearest :: "real \<Rightarrow> int" where
  "nearest y = ties_to_even \<lfloor>y\<rfloor> (y - of_int \<lfloor>y\<rfloor>)"

definition with_sign :: "real \<Rightarrow> real \<Rightarrow> number" where
  "with_sign x r =
     (if pow2 1024 \<le> r then (if 0 < x then PosInf else NegInf)
      else Fin (if 0 \<le> x then r else - r))"

definition in_steps_of :: "real \<Rightarrow> real \<Rightarrow> number" where
  "in_steps_of q x = with_sign x (of_int (nearest (\<bar>x\<bar> / q)) * q)"

definition dbl :: "real \<Rightarrow> number" where
  "dbl x = in_steps_of (pow2 (exponent \<bar>x\<bar> - 52)) x"

fun n_lt :: "number \<Rightarrow> number \<Rightarrow> bool" where
  "n_lt (Fin a) (Fin b) = (a < b)"
| "n_lt (Fin a) PosInf = True"
| "n_lt (Fin a) NegInf = False"
| "n_lt NegInf (Fin b) = True"
| "n_lt NegInf PosInf = True"
| "n_lt NegInf NegInf = False"
| "n_lt PosInf (Fin b) = False"
| "n_lt PosInf PosInf = False"
| "n_lt PosInf NegInf = False"
| "n_lt NaN b = False"
| "n_lt (Fin a) NaN = False"
| "n_lt PosInf NaN = False"
| "n_lt NegInf NaN = False"

definition n_gt :: "number \<Rightarrow> number \<Rightarrow> bool" where
  "n_gt a b = n_lt b a"

fun n_sub :: "number \<Rightarrow> number \<Rightarrow> number" where
  "n_sub (Fin a) (Fin b) = dbl (a - b)"
| "n_sub (Fin a) PosInf = NegInf"
| "n_sub (Fin a) NegInf = PosInf"
| "n_sub PosInf (Fin b) = PosInf"
| "n_sub PosInf NegInf = PosInf"
| "n_sub PosInf PosInf = NaN"
| "n_sub NegInf (Fin b) = NegInf"
| "n_sub NegInf PosInf = NegInf"
| "n_sub NegInf NegInf = NaN"
| "n_sub NaN b = NaN"
| "n_sub (Fin a) NaN = NaN"
| "n_sub PosInf NaN = NaN"
| "n_sub NegInf NaN = NaN"

fun n_abs :: "number \<Rightarrow> number" where
  "n_abs (Fin a) = Fin \<bar>a\<bar>"
| "n_abs PosInf = PosInf"
| "n_abs NegInf = PosInf"
| "n_abs NaN = NaN"

definition to_number :: "real option \<Rightarrow> number" where
  "to_number x = (case x of None \<Rightarrow> NaN | Some r \<Rightarrow> dbl r)"

definition number_or :: "real option \<Rightarrow> real \<Rightarrow> number" where
  "number_or x d = (case x of None \<Rightarrow> dbl d | Some r \<Rightarrow> dbl r)"

section \<open>The sound classifier (sound_classifier.js)\<close>

text \<open>
  \<open>classifyByHeuristic(noiseLevel, lowFreq = 0.2, midFreq = 0.2, highFreq = 0.2,
  volatility = 0.3)\<close> is a chain of \<open>if (...) return\<close> statements. The four defaulted
  parameters are numbers once the defaults have been applied; \<open>noiseLevel\<close> has no default
  and may be \<open>undefined\<close>. An argument \<open>Some x\<close> is the number \<open>dbl x\<close>: the binary64 value
  \<open>x\<close> itself, or the number a literal with the decimal expansion \<open>x\<close> denotes.
\<close>

definition classifyByHeuristic ::
  "real option \<Rightarrow> real option \<Rightarrow> real option \<Rightarrow> real option \<Rightarrow> real option \<Rightarrow> string" where
  "classifyByHeuristic noiseLevel0 lowFreq0 midFreq0 highFreq0 volatility0 =
    (let noiseLevel = to_number noiseLevel0;
         lowFreq = number_or lowFreq0 0.2;
         midFreq = number_or midFreq0 0.2;
         highFreq = number_or highFreq0 0.2;
         volatility = number_or volatility0 0.3
     in if n_lt noiseLevel (dbl 45) then ''silence''
        else if n_gt volatility (dbl 0.55) \<and> n_gt highFreq (dbl 0.5) then ''typing''
        else if n_gt lowFreq (dbl 0.45) \<and> n_gt noiseLevel (dbl 72) then ''vehicle''
        else if n_lt (n_abs (n_sub lowFreq highFreq)) (dbl 0.15)
                \<and> n_gt volatility (dbl 0.35) \<and> n_lt volatility (dbl 0.65)
          then ''music''
        else if n_gt midFreq (dbl 0.5) \<and> n_lt volatility (dbl 0.55)
                \<and> n_gt noiseLevel (dbl 45) \<and> n_lt noiseLevel (dbl 80)
          then ''speech''
        else ''speech'')"

text \<open>
  The classifier object. Of its fields only \<open>initialized\<close> is read by \<open>classify\<close>: the
  constructor sets it to \<open>false\<close>, and \<open>initialize()\<close> sets it to \<open>true\<close> when building and
  training the TensorFlow model succeeded (a failure is caught and leaves it \<open>false\<close>).
\<close>

record classifier =
  initialized :: bool

text \<open>
  The argument of \<open>classify\<close>, an object \<open>{ noiseLevel, lowFreqEnergy, midFreqEnergy,
  highFreqEnergy, volatility }\<close> any of whose keys may be absent, and its result
  \<open>{ soundType, confidence, scores }\<close> (\<open>scores\<close> is always the empty object, and
  \<open>confidence\<close> the literal \<open>0\<close> or \<open>0.95\<close>, kept as written).
\<close>

record features =
  f_noiseLevel :: "real option"
  lowFreqEnergy :: "real option"
  midFreqEnergy :: "real option"
  highFreqEnergy :: "real option"
  volatility :: "real option"

record classify_result =
  c_soundType :: string
  confidence :: real
  scores :: "(string \<times> real) list"

definition unknown_result :: classify_result where
  "unknown_result = \<lparr>c_soundType = ''unknown'', confidence = 0, scores = []\<rparr>"

text \<open>
  \<open>classify(features)\<close>. The argument is \<open>None\<close> when the caller passes \<open>null\<close> or
  \<open>undefined\<close>: the destructuring then throws inside the \<open>try\<close>, and the \<open>catch\<close> returns
  the unknown result.
\<close>

definition classify :: "classifier \<Rightarrow> features option \<Rightarrow> classify_result" where
  "classify this arg =
    (if \<not> initialized this then unknown_result
     else case arg of
       None \<Rightarrow> unknown_result
     | Some f \<Rightarrow>
         (let noiseLevel = f_noiseLevel f;
              lowFreqEnergy = dflt (lowFreqEnergy f) 0.2;
              midFreqEnergy = dflt (midFreqEnergy f) 0.2;
              highFreqEnergy = dflt (highFreqEnergy f) 0.2;
              volatility = dflt (volatility f) 0.3;
              soundType = classifyByHeuristic noiseLevel (Some lowFreqEnergy)
                (Some midFreqEnergy) (Some highFreqEnergy) (Some volatility)
          in \<lparr>c_soundType = soundType, confidence = 0.95, scores = []\<rparr>))"

subsection \<open>The decision list of the specification\<close>

text \<open>
  The specification describes the classifier as a fixed, ordered list of rules of which
  the first that matches wins, with \<open>speech\<close> when none does. \<open>spec_rules\<close> is that list,
  written from the specification's words, its comparisons and its one subtraction being
  those of the language on the numbers the literals denote; \<open>first_match\<close> picks the
  label.
\<close>

definition spec_rules ::
  "number \<Rightarrow> number \<Rightarrow> number \<Rightarrow> number \<Rightarrow> number \<Rightarrow> (bool \<times> string) list" where
  "spec_rules noise low mid high vol =
    [(n_lt noise (dbl 45), ''silence''),
     (n_gt vol (dbl 0.55) \<and> n_gt high (dbl 0.5), ''typing''),
     (n_gt low (dbl 0.45) \<and> n_gt noise (dbl 72), ''vehicle''),
     (n_lt (n_abs (n_sub low high)) (dbl 0.15) \<and> n_lt (dbl 0.35) vol \<and> n_lt vol (dbl 0.65),
        ''music''),
     (n_gt mid (dbl 0.5) \<and> n_lt vol (dbl 0.55) \<and> n_lt (dbl 45) noise \<and> n_lt noise (dbl 80),
        ''speech'')]"

fun first_match :: "(bool \<times> string) list \<Rightarrow> string \<Rightarrow> string" where
  "first_match [] otherwise = otherwise"
| "first_match ((c, label) # rules) otherwise = (if c then label else first_match rules otherwise)"

definition spec_classify ::
  "real option \<Rightarrow> real option \<Rightarrow> real option \<Rightarrow> real option \<Rightarrow> real option \<Rightarrow> string" where
  "spec_classify noiseLevel low mid high vol =
    first_match
      (spec_rules (to_number noiseLevel) (number_or low 0.2) (number_or mid 0.2)
         (number_or high 0.2) (number_or vol 0.3))
      ''speech''"

section \<open>The server (main.js)\<close>

subsection \<open>Messages, registry entries and events\<close>

text \<open>
  The own properties of an ingest message after \<open>JSON.parse\<close>, in the names of the
  destructuring
  \<open>const { deviceId, tableId, noiseLevel, audioFeatures, soundType, timestamp } = data\<close>.
  \<open>audioFeatures\<close> is an object or absent; it is spread into the classifier's argument
  after \<open>noiseLevel\<close>, so a \<open>noiseLevel\<close> key of its own would take precedence there.
\<close>

record message =
  deviceId :: "string option"
  tableId :: "string option"
  noiseLevel :: "real option"
  audioFeatures :: "features option"
  soundType :: "string option"
  timestamp :: "int option"

text \<open>
  What the handler receives: text that \<open>JSON.parse\<close> rejects (it throws), the JSON value
  \<open>null\<close> (the destructuring throws), or any other JSON value, whose properties read as a
  \<open>message\<close> (for a number, a string, a boolean or an array every field is absent).
\<close>

datatype payload = Unparsable | JsonNull | Json message

text \<open>
  The fields the handler writes to \<open>devices[deviceId]\<close>. Every one is \<open>undefined\<close> on the
  fresh object \<open>{}\<close>. \<open>ws\<close> refers to the connection that delivered the last message, by
  its number.
\<close>

record devstate =
  lastSeen :: "int option"
  d_tableId :: "string option"
  lastNoise :: "real option"
  ws :: "nat option"
  lastSoundType :: "string option"
  classification :: "classify_result option"

definition empty_device :: devstate where
  "empty_device = \<lparr>lastSeen = None, d_tableId = None, lastNoise = None, ws = None,
     lastSoundType = None, classification = None\<rparr>"

text \<open>
  What the server does to the outside. The first four are the objects passed to
  \<open>mainWindow.webContents.send\<close>:
  \<^item> \<open>DeviceData deviceId tableId noiseLevel soundType timestamp\<close> on channel \<open>device-data\<close>;
  \<^item> \<open>NoiseExceed deviceId tableId noiseLevel soundType timestamp\<close>, the \<open>alert\<close> of type
    \<open>noise_exceed\<close>;
  \<^item> \<open>PossibleSensorIssue deviceId tableId noiseLevel peers\<close>, the \<open>alert\<close> of type
    \<open>possible_sensor_issue\<close>, each peer a pair of \<open>deviceId\<close> and \<open>noise\<close>;
  \<^item> \<open>DeviceOffline deviceId tableId\<close> on channel \<open>device-offline\<close>.

  \<open>Ping c\<close> and \<open>Terminate c\<close> are the calls \<open>client.ping()\<close> and \<open>client.terminate()\<close> on
  connection \<open>c\<close>.
\<close>

datatype event =
    DeviceData string "string option" "real option" string int
  | NoiseExceed string "string option" "real option" string int
  | PossibleSensorIssue string string real "(string \<times> real) list"
  | DeviceOffline string "string option"
  | Ping nat
  | Terminate nat

text \<open>
  \<open>devices\<close> is a plain object, so a property that is not its own is looked up on
  \<open>Object.prototype\<close>, and the name \<open>__proto__\<close> denotes \<open>Object.prototype\<close> itself. The
  handler writes the fields of a payload whose \<open>deviceId\<close> is \<open>__proto__\<close> there, and from
  then on every object of the process that has no such field of its own reads them:
  a decoded payload without a \<open>tableId\<close>, a fresh \<open>{}\<close>, and a string or a number. The
  value of an own property of \<open>devices\<close> is therefore one of two things:

  \<^item> \<open>Obj own\<close>: an object with the fields \<open>own\<close>. It is the \<open>{}\<close> the handler created, or
    an object found on \<open>Object.prototype\<close> under the name of the \<open>deviceId\<close> (a built-in
    method such as \<open>toString\<close>, or the connection or classification a \<open>__proto__\<close> payload
    left under \<open>ws\<close> or \<open>classification\<close>); none of these has a field of a registry
    entry before the handler writes it. The handler writes \<open>lastSeen\<close>, \<open>tableId\<close>,
    \<open>lastNoise\<close> and \<open>ws\<close> to the object before anything reads them, so an \<open>undefined\<close>
    among these is the value of an own property. (\<open>lastSoundType\<close> and \<open>classification\<close>
    are written by the program and never read.)
  \<^item> \<open>Prim\<close>: a truthy string or number that a \<open>__proto__\<close> payload left on
    \<open>Object.prototype\<close> under the name of the \<open>deviceId\<close> (\<open>tableId\<close>, \<open>lastSoundType\<close>,
    \<open>lastSeen\<close> or \<open>lastNoise\<close>). The file is not in strict mode, so an assignment to a
    field of it does nothing, and every field of it reads as \<open>Object.prototype\<close> has
    it.
\<close>

datatype entry = Obj devstate | Prim

text \<open>
  The state of the server process: the own properties of \<open>devices\<close> as \<open>Object.entries\<close>
  lists them, the fields a \<open>__proto__\<close> payload has written to \<open>Object.prototype\<close> (all
  \<open>undefined\<close> as long as there was none), the set \<open>wss.clients\<close> in insertion order with
  each connection's \<open>isAlive\<close> flag, whether \<open>mainWindow\<close> holds a window (it is \<open>null\<close>
  before the window is created, after it is closed, and when it could not be created),
  and the classifier.
\<close>

record server =
  devices :: "(string \<times> entry) list"
  prototype :: devstate
  clients :: "(nat \<times> bool) list"
  mainWindow :: bool
  soundClassifier :: classifier

definition NOISE_THRESHOLD :: real where
  "NOISE_THRESHOLD = 65"

definition INACTIVITY_MS :: int where
  "INACTIVITY_MS = 15000"

subsection \<open>The operator \<open>||\<close> and the guarded send\<close>

text \<open>
  \<open>a || b\<close> is \<open>a\<close> when \<open>a\<close> is truthy and \<open>b\<close> otherwise: \<open>str_or\<close> for
  \<open>tableId || devices[deviceId].tableId\<close>, \<open>str_or_lit\<close> for \<open>soundType || 'unknown'\<close>,
  \<open>num_or\<close> for \<open>lastNoise || 0\<close> and \<open>time_or\<close> for \<open>timestamp || Date.now()\<close>.
\<close>

definition str_or :: "string option \<Rightarrow> string option \<Rightarrow> string option" where
  "str_or a b = (if truthy_str a then a else b)"

definition str_or_lit :: "string option \<Rightarrow> string \<Rightarrow> string" where
  "str_or_lit a b = (case a of None \<Rightarrow> b | Some x \<Rightarrow> if x = [] then b else x)"

definition num_or :: "real option \<Rightarrow> real \<Rightarrow> real" where
  "num_or a b = (case a of None \<Rightarrow> b | Some x \<Rightarrow> if x = 0 then b else x)"

definition time_or :: "int option \<Rightarrow> int \<Rightarrow> int" where
  "time_or a b = (case a of None \<Rightarrow> b | Some x \<Rightarrow> if x = 0 then b else x)"

text \<open>\<open>if (mainWindow) mainWindow.webContents.send(channel, payload)\<close>\<close>

definition send :: "bool \<Rightarrow> event \<Rightarrow> event list" where
  "send window e = (if window then [e] else [])"

subsection \<open>The registry as a JavaScript object\<close>

text \<open>
  \<open>Object.entries\<close> lists the keys of \<open>devices\<close> in the order of the language: the array
  indices (canonical decimal numerals up to \<open>2^32 - 2\<close>) in ascending order, then every
  other key in the order of its creation. \<open>set_entry\<close> is the assignment
  \<open>devices[k] = v\<close> for a key other than \<open>__proto__\<close>: an existing key keeps its place, a
  new one is put where that order has it. \<open>own_key\<close> tells the names that can be keys.
\<close>

definition own_key :: "string \<Rightarrow> bool" where
  "own_key k = (k \<noteq> ''__proto__'')"

definition digit_val :: "char \<Rightarrow> nat" where
  "digit_val c = of_char c - 48"

definition is_digit :: "char \<Rightarrow> bool" where
  "is_digit c = (c \<in> set ''0123456789'')"

definition index_val :: "string \<Rightarrow> nat" where
  "index_val k = foldl (\<lambda>acc c. 10 * acc + digit_val c) 0 k"

definition is_array_index :: "string \<Rightarrow> bool" where
  "is_array_index k =
     (k \<noteq> [] \<and> list_all is_digit k \<and> (k = ''0'' \<or> hd k \<noteq> CHR ''0'') \<and> index_val k \<le> 4294967294)"

fun insert_entry :: "string \<Rightarrow> 'a \<Rightarrow> (string \<times> 'a) list \<Rightarrow> (string \<times> 'a) list" where
  "insert_entry k v [] = [(k, v)]"
| "insert_entry k v ((k', v') # rest) =
     (if is_array_index k \<and> (\<not> is_array_index k' \<or> index_val k < index_val k')
      then (k, v) # (k', v') # rest
      else (k', v') # insert_entry k v rest)"

definition set_entry :: "string \<Rightarrow> 'a \<Rightarrow> (string \<times> 'a) list \<Rightarrow> (string \<times> 'a) list" where
  "set_entry k v es =
     (if k \<in> fst ` set es
      then map (\<lambda>(k', v'). if k' = k then (k', v) else (k', v')) es
      else insert_entry k v es)"

text \<open>
  Reading the registry. \<open>fields proto e\<close> are the fields of the value \<open>e\<close> of an own
  property as the program reads them while \<open>Object.prototype\<close> holds \<open>proto\<close> (of an object
  its own: the program reads \<open>lastSeen\<close>, \<open>tableId\<close> and \<open>lastNoise\<close>, which the handler
  has written to it), and \<open>entries\<close> is \<open>Object.entries(devices)\<close> read in this way.
  \<open>read_device s k\<close> are the fields of
  \<open>devices[k] || {}\<close> as a read finds them: those of the value of the key \<open>k\<close>, and
  those of \<open>Object.prototype\<close> when \<open>k\<close> is not a key (the lookup then yields
  \<open>Object.prototype\<close> itself, for \<open>__proto__\<close>, or a value found on it or the fresh \<open>{}\<close>,
  which have no such field of their own).
\<close>

definition fields :: "devstate \<Rightarrow> entry \<Rightarrow> devstate" where
  "fields proto e = (case e of Obj own \<Rightarrow> own | Prim \<Rightarrow> proto)"

definition entries :: "server \<Rightarrow> (string \<times> devstate) list" where
  "entries s = map (\<lambda>(k, e). (k, fields (prototype s) e)) (devices s)"

definition read_device :: "server \<Rightarrow> string \<Rightarrow> devstate" where
  "read_device s k =
     (if k = ''__proto__'' then prototype s
      else case map_of (devices s) k of
             None \<Rightarrow> prototype s
           | Some e \<Rightarrow> fields (prototype s) e)"

text \<open>
  \<open>devices[k] = devices[k] || {}\<close>: what the fields of a payload with \<open>deviceId\<close> \<open>k\<close> are
  then written to.
  \<^item> \<open>k\<close> is \<open>__proto__\<close>: the lookup yields \<open>Object.prototype\<close>, the assignment sets the
    prototype of \<open>devices\<close> to what it is, and the fields go to \<open>Object.prototype\<close>.
  \<^item> \<open>k\<close> is a key: its value, an object or a primitive.
  \<^item> Otherwise the lookup goes to \<open>Object.prototype\<close>. If a \<open>__proto__\<close> payload has left
    a truthy string or number there under the name \<open>k\<close> (\<open>inherits_primitive\<close>), that
    primitive becomes the value of the new key. If not, the value is an object without
    the fields of an entry: the fresh \<open>{}\<close>, or an object found under \<open>k\<close>. Before the
    \<open>tableId\<close> of this object is written it is read (\<open>tableId || devices[k].tableId\<close>),
    which finds the \<open>tableId\<close> of \<open>Object.prototype\<close>.
\<close>

definition inherits_primitive :: "devstate \<Rightarrow> string \<Rightarrow> bool" where
  "inherits_primitive proto k =
     (k = ''tableId'' \<and> truthy_str (d_tableId proto)
      \<or> k = ''lastSoundType'' \<and> truthy_str (lastSoundType proto)
      \<or> k = ''lastSeen'' \<and> (case lastSeen proto of None \<Rightarrow> False | Some t \<Rightarrow> t \<noteq> 0)
      \<or> k = ''lastNoise'' \<and> (case lastNoise proto of None \<Rightarrow> False | Some n \<Rightarrow> n \<noteq> 0))"

datatype target = ThePrototype | AnObject devstate | APrimitive

definition target_of :: "server \<Rightarrow> string \<Rightarrow> target" where
  "target_of s k =
     (if k = ''__proto__'' then ThePrototype
      else case map_of (devices s) k of
             Some (Obj own) \<Rightarrow> AnObject own
           | Some Prim \<Rightarrow> APrimitive
           | None \<Rightarrow>
               if inherits_primitive (prototype s) k then APrimitive
               else AnObject (empty_device\<lparr>d_tableId := d_tableId (prototype s)\<rparr>))"

subsection \<open>The peer check\<close>

text \<open>
  \<open>checkForMismatch(triggeringDeviceId)\<close>, with \<open>mainWindow\<close> and the registry as it reads
  as arguments: \<open>devs\<close> is a list of names with the fields read under them, in which the
  lookup \<open>devices[triggeringDeviceId]\<close> finds the first pair of that name.
  \<open>otherDevices\<close> is the filtered list of the same name in the source.
\<close>

definition otherDevices :: "(string \<times> devstate) list \<Rightarrow> string \<Rightarrow> string \<Rightarrow> (string \<times> devstate) list" where
  "otherDevices devs triggeringDeviceId table =
     filter (\<lambda>(id, d). id \<noteq> triggeringDeviceId \<and> d_tableId d = Some table) devs"

definition checkForMismatch :: "bool \<Rightarrow> (string \<times> devstate) list \<Rightarrow> string \<Rightarrow> event list" where
  "checkForMismatch window devs triggeringDeviceId =
     (case map_of devs triggeringDeviceId of
        None \<Rightarrow> []
      | Some triggering \<Rightarrow>
          (case d_tableId triggering of
             None \<Rightarrow> []
           | Some table \<Rightarrow>
               if table = [] then []
               else
                 (let triggeredNoise = num_or (lastNoise triggering) 0;
                      others = otherDevices devs triggeringDeviceId table
                  in if others = [] then []
                     else
                       (let peersLow =
                              list_all (\<lambda>(id, d). num_or (lastNoise d) 0 < NOISE_THRESHOLD - 10) others
                        in if triggeredNoise \<ge> NOISE_THRESHOLD \<and> peersLow
                           then send window
                                  (PossibleSensorIssue triggeringDeviceId table triggeredNoise
                                     (map (\<lambda>(id, d). (id, num_or (lastNoise d) 0)) others))
                           else []))))"

subsection \<open>The message handler\<close>

text \<open>
  The variable \<open>tableId\<close> of the destructuring: the payload's own \<open>tableId\<close>, and for a
  payload without one the \<open>tableId\<close> of \<open>Object.prototype\<close>. (No other variable of the
  pattern has the name of a field the handler writes.)
\<close>

definition destructured :: "server \<Rightarrow> message \<Rightarrow> message" where
  "destructured s data =
     data\<lparr>tableId := (case tableId data of None \<Rightarrow> d_tableId (prototype s) | Some t \<Rightarrow> Some t)\<rparr>"

text \<open>
  The object literal \<open>{ noiseLevel, ...audioFeatures }\<close> passed to \<open>classify\<close>.
\<close>

definition spread :: "real option \<Rightarrow> features \<Rightarrow> features" where
  "spread n af = af\<lparr>f_noiseLevel := (case f_noiseLevel af of None \<Rightarrow> n | Some x \<Rightarrow> Some x)\<rparr>"

text \<open>
  The value of the variable \<open>classifiedSoundType\<close> after the classification step:
  \<open>soundType || 'unknown'\<close>, replaced by the classifier's label when the message has
  \<open>audioFeatures\<close> (\<open>soundClassifier\<close> is always an object when the handler runs).
\<close>

definition classifiedSoundType :: "classifier \<Rightarrow> message \<Rightarrow> string" where
  "classifiedSoundType cl m =
     (case audioFeatures m of
        Some af \<Rightarrow> c_soundType (classify cl (Some (spread (noiseLevel m) af)))
      | None \<Rightarrow> str_or_lit (soundType m) ''unknown'')"

text \<open>
  The assignments to the fields of \<open>devices[deviceId]\<close>, from the fields \<open>old\<close> of the
  object they are made to, to its fields afterwards. \<open>m\<close> holds the variables of the
  destructuring, \<open>now\<close> is the value of \<open>Date.now()\<close> and \<open>conn\<close> the connection the handler
  belongs to.
\<close>

definition update_device :: "int \<Rightarrow> nat \<Rightarrow> classifier \<Rightarrow> message \<Rightarrow> devstate \<Rightarrow> devstate" where
  "update_device now conn cl m old =
     (let d1 = old\<lparr>lastSeen := Some now,
                   d_tableId := str_or (tableId m) (d_tableId old),
                   lastNoise := noiseLevel m,
                   ws := Some conn\<rparr>
      in case audioFeatures m of
           Some af \<Rightarrow>
             (let c = classify cl (Some (spread (noiseLevel m) af))
              in d1\<lparr>lastSoundType := Some (c_soundType c), classification := Some c\<rparr>)
         | None \<Rightarrow>
             if truthy_str (soundType m) then d1\<lparr>lastSoundType := soundType m\<rparr> else d1)"

text \<open>
  The state after \<open>devices[k] = devices[k] || {}\<close> and the assignments to the fields of
  \<open>devices[k]\<close>.
\<close>

definition upsert :: "int \<Rightarrow> nat \<Rightarrow> message \<Rightarrow> string \<Rightarrow> server \<Rightarrow> server" where
  "upsert now conn m k s =
     (case target_of s k of
        ThePrototype \<Rightarrow>
          s\<lparr>prototype := update_device now conn (soundClassifier s) m (prototype s)\<rparr>
      | AnObject old \<Rightarrow>
          s\<lparr>devices :=
              set_entry k (Obj (update_device now conn (soundClassifier s) m old)) (devices s)\<rparr>
      | APrimitive \<Rightarrow> s\<lparr>devices := set_entry k Prim (devices s)\<rparr>)"

text \<open>
  \<open>ws.on('message', ...)\<close>: the new state and the events, in order. The handler is
  synchronous; its calls of \<open>Date.now()\<close> are taken to return the same \<open>now\<close>. A payload
  that makes \<open>JSON.parse\<close> or the destructuring throw ends in the \<open>catch\<close>, which only
  logs; one without a truthy \<open>deviceId\<close> ends at \<open>if (!deviceId) return\<close>. The alert reads
  \<open>devices[deviceId].tableId\<close> after the assignments. \<open>checkForMismatch\<close> is given what
  \<open>devices[deviceId]\<close> then reads, followed by \<open>Object.entries(devices)\<close>.
\<close>

definition on_message :: "int \<Rightarrow> nat \<Rightarrow> payload \<Rightarrow> server \<Rightarrow> server \<times> event list" where
  "on_message now conn p s =
     (case p of
        Unparsable \<Rightarrow> (s, [])
      | JsonNull \<Rightarrow> (s, [])
      | Json data \<Rightarrow>
          (case deviceId data of
             None \<Rightarrow> (s, [])
           | Some d \<Rightarrow>
               if d = [] then (s, [])
               else
                 (let m = destructured s data;
                      s' = upsert now conn m d s;
                      classified = classifiedSoundType (soundClassifier s) m;
                      stamp = time_or (timestamp m) now;
                      echo = send (mainWindow s)
                               (DeviceData d (tableId m) (noiseLevel m) classified stamp);
                      exceed =
                        (if js_ge (noiseLevel m) NOISE_THRESHOLD
                         then send (mainWindow s)
                                (NoiseExceed d (d_tableId (read_device s' d)) (noiseLevel m)
                                   classified stamp)
                         else [])
                  in (s',
                      echo @ exceed
                        @ checkForMismatch (mainWindow s) ((d, read_device s' d) # entries s') d))))"

subsection \<open>Connections and the periodic sweep\<close>

text \<open>
  \<open>wss.on('connection', ...)\<close> adds the socket to \<open>wss.clients\<close> and sets its flag;
  the \<open>pong\<close> handler sets the flag again; the \<open>close\<close> handler only logs, and the
  library takes a closed socket out of \<open>wss.clients\<close>.
\<close>

definition on_connection :: "nat \<Rightarrow> server \<Rightarrow> server" where
  "on_connection c s =
     s\<lparr>clients :=
         (if c \<in> fst ` set (clients s)
          then map (\<lambda>(c', alive). if c' = c then (c', True) else (c', alive)) (clients s)
          else clients s @ [(c, True)])\<rparr>"

definition on_pong :: "nat \<Rightarrow> server \<Rightarrow> server" where
  "on_pong c s =
     s\<lparr>clients := map (\<lambda>(c', alive). if c' = c then (c', True) else (c', alive)) (clients s)\<rparr>"

definition on_close :: "nat \<Rightarrow> server \<Rightarrow> server" where
  "on_close c s = s\<lparr>clients := filter (\<lambda>(c', alive). c' \<noteq> c) (clients s)\<rparr>"

text \<open>
  The callback of \<open>setInterval(..., 5000)\<close>. First \<open>Object.entries(devices)\<close> is scanned
  for silent devices, then every client is probed: one whose flag is \<open>false\<close> is
  terminated (and so leaves \<open>wss.clients\<close>), the others have the flag cleared and are
  pinged.
\<close>

definition offline_events :: "bool \<Rightarrow> int \<Rightarrow> (string \<times> devstate) list \<Rightarrow> event list" where
  "offline_events window now devs =
     concat (map (\<lambda>(id, dev).
        case lastSeen dev of
          None \<Rightarrow> []
        | Some seen \<Rightarrow>
            if seen = 0 then []
            else if now - seen > INACTIVITY_MS then send window (DeviceOffline id (d_tableId dev))
            else []) devs)"

fun ping_clients :: "(nat \<times> bool) list \<Rightarrow> (nat \<times> bool) list \<times> event list" where
  "ping_clients [] = ([], [])"
| "ping_clients ((c, alive) # cs) =
     (if \<not> alive then (fst (ping_clients cs), Terminate c # snd (ping_clients cs))
      else ((c, False) # fst (ping_clients cs), Ping c # snd (ping_clients cs)))"

definition sweep :: "int \<Rightarrow> server \<Rightarrow> server \<times> event list" where
  "sweep now s =
     (s\<lparr>clients := fst (ping_clients (clients s))\<rparr>,
      offline_events (mainWindow s) now (entries s) @ snd (ping_clients (clients s)))"

subsection \<open>The event loop\<close>

text \<open>
  Everything that can happen to the server once it listens: a connection is accepted,
  a pong or a payload arrives on a connection, a connection closes, the timer fires,
  the window is created or closed. \<open>step\<close> runs the handler registered for the
  occurrence; \<open>run\<close> processes a sequence of them and collects the events.
\<close>

datatype occurrence =
    Connection nat
  | Pong nat
  | Message nat payload int
  | Close nat
  | Sweep int
  | WindowCreated
  | WindowClosed

fun step :: "occurrence \<Rightarrow> server \<Rightarrow> server \<times> event list" where
  "step (Connection c) s = (on_connection c s, [])"
| "step (Pong c) s = (on_pong c s, [])"
| "step (Message c p now) s = on_message now c p s"
| "step (Close c) s = (on_close c s, [])"
| "step (Sweep now) s = sweep now s"
| "step WindowCreated s = (s\<lparr>mainWindow := True\<rparr>, [])"
| "step WindowClosed s = (s\<lparr>mainWindow := False\<rparr>, [])"

fun run :: "occurrence list \<Rightarrow> server \<Rightarrow> server \<times> event list" where
  "run [] s = (s, [])"
| "run (x # xs) s = (fst (run xs (fst (step x s))), snd (step x s) @ snd (run xs (fst (step x s))))"

subsection \<open>Reading the events and the registry\<close>

text \<open>
  Selectors used to state the properties: the kind of an event, the condition under
  which the sweep reports an entry (the two \<open>if\<close>s of its loop), and the \<open>deviceId\<close> an
  occurrence brings to the handler (that of a payload which passes
  \<open>if (!deviceId) return\<close>).
\<close>

fun is_noise_exceed :: "event \<Rightarrow> bool" where
  "is_noise_exceed (NoiseExceed d t n l ts) = True"
| "is_noise_exceed e = False"


fun is_offline :: "event \<Rightarrow> bool" where
  "is_offline (DeviceOffline d t) = True"
| "is_offline e = False"

definition silent :: "int \<Rightarrow> devstate \<Rightarrow> bool" where
  "silent now dev =
     (case lastSeen dev of None \<Rightarrow> False | Some seen \<Rightarrow> seen \<noteq> 0 \<and> now - seen > INACTIVITY_MS)"

text \<open>
  \<open>passes m d\<close>: the decoded message \<open>m\<close> passes \<open>if (!deviceId) return\<close> with the
  \<open>deviceId\<close> \<open>d\<close>. \<open>accepted m d\<close>: it does, and \<open>d\<close> can be a key of the registry (see
  \<open>own_key\<close>).
\<close>

definition passes :: "message \<Rightarrow> string \<Rightarrow> bool" where
  "passes m d = (deviceId m = Some d \<and> d \<noteq> [])"

definition accepted :: "message \<Rightarrow> string \<Rightarrow> bool" where
  "accepted m d = (deviceId m = Some d \<and> d \<noteq> [] \<and> own_key d)"

fun sighted :: "occurrence \<Rightarrow> string set" where
  "sighted (Message c (Json m) now) =
     (case deviceId m of None \<Rightarrow> {} | Some d \<Rightarrow> if d = [] then {} else {d})"
| "sighted x = {}"

text \<open>
  \<open>unpolluted s\<close>: no payload with the \<open>deviceId\<close> \<open>__proto__\<close> has been handled. The
  fields of \<open>Object.prototype\<close> are all \<open>undefined\<close>, and every value in the registry is
  an object.
\<close>

definition unpolluted :: "server \<Rightarrow> bool" where
  "unpolluted s = (prototype s = empty_device \<and> Prim \<notin> snd ` set (devices s))"

subsection \<open>Concrete states and messages\<close>

text \<open>
  \<open>listening window ready\<close> is the server as it starts to listen: no device, no
  connection, \<open>mainWindow\<close> set or not, the classifier initialised or not (the window is
  created only after the server has started). \<open>reading d t n\<close> is the message
  \<open>{ deviceId: d, tableId: t, noiseLevel: n }\<close>, and \<open>bare d\<close> the message
  \<open>{ deviceId: d }\<close>.
\<close>

definition listening :: "bool \<Rightarrow> bool \<Rightarrow> server" where
  "listening window ready =
     \<lparr>devices = [], prototype = empty_device, clients = [], mainWindow = window,
      soundClassifier = \<lparr>initialized = ready\<rparr>\<rparr>"

definition reading :: "string \<Rightarrow> string \<Rightarrow> real \<Rightarrow> message" where
  "reading d t n =
     \<lparr>deviceId = Some d, tableId = Some t, noiseLevel = Some n, audioFeatures = None,
      soundType = None, timestamp = None\<rparr>"

definition bare :: "string \<Rightarrow> message" where
  "bare d =
     \<lparr>deviceId = Some d, tableId = None, noiseLevel = None, audioFeatures = None,
      soundType = None, timestamp = None\<rparr>"

section \<open>Properties of the classifier\<close>

lemmas dbl_eval = dbl_def exponent_def nearest_def ties_to_even_def in_steps_of_def with_sign_def
  pow2_def

lemma classifyByHeuristic_spec:
  "classifyByHeuristic n l m h v = spec_classify n l m h v"
  by (simp add: classifyByHeuristic_def spec_classify_def spec_rules_def n_gt_def Let_def)

lemma number_or_dflt: "number_or (Some (dflt x d)) d' = number_or x d"
  by (simp add: number_or_def dflt_def split: option.splits)

text \<open>
  The numbers the literals of the classifier denote. None of the decimal fractions but
  \<open>0.5\<close> is a binary64 value; \<open>0.15\<close>, \<open>0.35\<close> and \<open>0.45\<close> denote a number below the
  fraction and \<open>0.2\<close>, \<open>0.3\<close>, \<open>0.55\<close> and \<open>0.65\<close> one above it.
\<close>

lemma dbl_integers: "dbl 45 = Fin 45" "dbl 72 = Fin 72" "dbl 80 = Fin 80" "dbl 60 = Fin 60"
  "dbl 75 = Fin 75" "dbl 30 = Fin 30"
  by (simp_all add: dbl_eval)

lemma dbl_thresholds:
  "dbl (1 / 2) = Fin (1 / 2)"
  "dbl (11 / 20) = Fin (2476979795053773 / 4503599627370496)"
  "dbl (9 / 20) = Fin (8106479329266893 / 18014398509481984)"
  "dbl (3 / 20) = Fin (5404319552844595 / 36028797018963968)"
  "dbl (7 / 20) = Fin (3152519739159347 / 9007199254740992)"
  "dbl (13 / 20) = Fin (5854679515581645 / 9007199254740992)"
  by (simp_all add: dbl_eval)

lemma dbl_defaults:
  "dbl (1 / 5) = Fin (3602879701896397 / 18014398509481984)"
  "dbl (3 / 10) = Fin (5404319552844595 / 18014398509481984)"
  by (simp_all add: dbl_eval)

lemma dbl_inputs:
  "dbl (9 / 10) = Fin (8106479329266893 / 9007199254740992)"
  "dbl (3 / 5) = Fin (5404319552844595 / 9007199254740992)"
  "dbl (2 / 5) = Fin (3602879701896397 / 9007199254740992)"
  by (simp_all add: dbl_eval)

lemmas number_eval = classifyByHeuristic_def to_number_def number_or_def n_gt_def dbl_integers
  dbl_thresholds dbl_defaults dbl_inputs

text \<open>
  Claim C1, as the specification has it: for every input the classifier returns the
  label of the first matching rule of the ordered list (silence, typing, vehicle, music,
  speech, else speech), with the defaults 0.2, 0.2, 0.2 and 0.3 for missing features, and
  rejects no input.

  \<open>classify\<close> does not: on a classifier whose initialisation has not succeeded the
  guard \<open>if (!this.initialized)\<close> answers \<open>unknown\<close> before any rule is looked at. For
  \<open>noiseLevel = 30\<close> the rule list says \<open>silence\<close>.

  Nor are the rules those of the decimal fractions they are written with. For
  \<open>noiseLevel = 60\<close>, \<open>lowFreqEnergy = 0.35\<close>, \<open>highFreqEnergy = 0.2\<close> and
  \<open>volatility = 0.5\<close> the difference of the fractions is \<open>0.15\<close>, not below \<open>0.15\<close>, so
  that over the reals rule 4 would not match and the label would be \<open>speech\<close>; the
  program computes with the binary64 numbers the literals denote, whose difference is
  below the number \<open>0.15\<close>, and answers \<open>music\<close>.
\<close>

theorem classify_uninitialized_counterexample:
  "c_soundType (classify \<lparr>initialized = False\<rparr>
      (Some \<lparr>f_noiseLevel = Some 30, lowFreqEnergy = None, midFreqEnergy = None,
             highFreqEnergy = None, volatility = None\<rparr>)) = ''unknown''
   \<and> spec_classify (Some 30) None None None None = ''silence''
   \<and> \<not> \<bar>0.35 - 0.2\<bar> < (0.15 :: real)
   \<and> classifyByHeuristic (Some 60) (Some 0.35) (Some 0.2) (Some 0.2) (Some 0.5) = ''music''"
  by (simp add: classify_def unknown_result_def spec_classify_def spec_rules_def number_eval
        dbl_eval)

text \<open>
  Claim C1, amended: \<open>classifyByHeuristic\<close> is the decision list for every input,
  missing features taking their defaults and an \<open>undefined\<close> noise level matching no
  noise rule; \<open>classify\<close> on an initialised classifier returns that label (with
  confidence 0.95) for every features object; on a classifier that is not initialised
  it returns the unknown result for every argument. The comparisons and the subtraction
  of the rules are those of binary64 numbers: rule 4 holds of \<open>lowFreqEnergy = 0.35\<close> and
  \<open>highFreqEnergy = 0.2\<close>, whose difference as numbers is below the number \<open>0.15\<close>.
\<close>

theorem classify_first_matching_rule:
  "classifyByHeuristic n l m h v = spec_classify n l m h v
   \<and> (initialized this \<longrightarrow>
        classify this (Some f) =
          \<lparr>c_soundType =
             spec_classify (f_noiseLevel f) (lowFreqEnergy f) (midFreqEnergy f)
               (highFreqEnergy f) (volatility f),
           confidence = 0.95, scores = []\<rparr>)
   \<and> (\<not> initialized this \<longrightarrow> classify this arg = unknown_result)"
  by (simp add: classify_def Let_def classifyByHeuristic_spec spec_classify_def number_or_dflt)

theorem classify_first_matching_rule_witness:
  "classify \<lparr>initialized = True\<rparr>
      (Some \<lparr>f_noiseLevel = Some 60, lowFreqEnergy = None, midFreqEnergy = Some 0.6,
             highFreqEnergy = None, volatility = None\<rparr>)
     = \<lparr>c_soundType = ''speech'', confidence = 0.95, scores = []\<rparr>
   \<and> classify \<lparr>initialized = False\<rparr> None = unknown_result
   \<and> classifyByHeuristic (Some 75) (Some 0.3) (Some 0.4) (Some 0.3) (Some 0.5) = ''music''
   \<and> classifyByHeuristic (Some 60) (Some 0.35) (Some 0.2) (Some 0.2) (Some 0.5) = ''music''"
  using
    classify_first_matching_rule [of "Some 75" "Some 0.3" "Some 0.4" "Some 0.3" "Some 0.5"
      "\<lparr>initialized = True\<rparr>"
      "\<lparr>f_noiseLevel = Some 60, lowFreqEnergy = None, midFreqEnergy = Some 0.6,
        highFreqEnergy = None, volatility = None\<rparr>" None]
    classify_first_matching_rule [of "Some 60" "Some 0.35" "Some 0.2" "Some 0.2" "Some 0.5"
      "\<lparr>initialized = False\<rparr>"
      "\<lparr>f_noiseLevel = None, lowFreqEnergy = None, midFreqEnergy = None,
        highFreqEnergy = None, volatility = None\<rparr>" None]
  by (simp add: spec_classify_def spec_rules_def number_eval dbl_eval)

text \<open>
  Claim C5, as the specification has it: for \<open>noiseLevel = 80\<close>, \<open>lowFreqEnergy = 0.5\<close>,
  \<open>highFreqEnergy = 0.5\<close>, \<open>volatility = 0.9\<close> and \<open>midFreqEnergy\<close> defaulted, the classifier
  returns \<open>typing\<close>. It does not: the typing rule asks for \<open>highFreq > 0.5\<close>, which
  \<open>0.5\<close> does not satisfy.
\<close>

theorem classify_example_not_typing:
  "classifyByHeuristic (Some 80) (Some 0.5) None (Some 0.5) (Some 0.9) \<noteq> ''typing''"
  by (simp add: number_eval)

text \<open>
  Claim C5, amended: on that input the typing rule does not match and the next rule,
  vehicle (\<open>lowFreq > 0.45\<close> and \<open>noiseLevel > 72\<close>), gives the label, from
  \<open>classifyByHeuristic\<close> and from \<open>classify\<close> on an initialised classifier alike.
\<close>

theorem classify_example_vehicle:
  "classifyByHeuristic (Some 80) (Some 0.5) None (Some 0.5) (Some 0.9) = ''vehicle''
   \<and> c_soundType (classify \<lparr>initialized = True\<rparr>
        (Some \<lparr>f_noiseLevel = Some 80, lowFreqEnergy = Some 0.5, midFreqEnergy = None,
               highFreqEnergy = Some 0.5, volatility = Some 0.9\<rparr>)) = ''vehicle''"
  by (simp add: classify_def dflt_def number_eval)

section \<open>The registry and the message handler\<close>

lemma set_insert_entry: "set (insert_entry k v es) = insert (k, v) (set es)"
  by (induction k v es rule: insert_entry.induct) (simp_all add: insert_commute)

lemma map_of_insert_entry:
  "k \<notin> fst ` set es \<Longrightarrow> map_of (insert_entry k v es) k' = (if k' = k then Some v else map_of es k')"
  by (induction es) auto

lemma map_of_set_entry:
  "map_of (set_entry k v es) k' = (if k' = k then Some v else map_of es k')"
proof (cases "k \<in> fst ` set es")
  case True
  have "map_of (map (\<lambda>(k', v'). if k' = k then (k', v) else (k', v')) es) k'
          = (if k' = k then (if k \<in> fst ` set es then Some v else None) else map_of es k')"
    by (induction es) (force simp: image_iff)+
  with True show ?thesis by (simp add: set_entry_def)
next
  case False
  then show ?thesis by (simp add: set_entry_def map_of_insert_entry)
qed

lemma keys_set_entry: "fst ` set (set_entry k v es) = insert k (fst ` set es)"
proof (cases "k \<in> fst ` set es")
  case True
  have "fst ` set (map (\<lambda>(k', v'). if k' = k then (k', v) else (k', v')) es) = fst ` set es"
    by (induction es) auto
  with True show ?thesis by (auto simp: set_entry_def)
next
  case False
  then show ?thesis by (simp add: set_entry_def set_insert_entry)
qed





lemma values_set_entry:
  "(k', x) \<in> set (set_entry k v es) \<Longrightarrow> k' = k \<Longrightarrow> x = v"
proof (cases "k \<in> fst ` set es")
  case True
  assume a: "(k', x) \<in> set (set_entry k v es)" "k' = k"
  have "(k, x) \<in> set (map (\<lambda>(k', v'). if k' = k then (k', v) else (k', v')) es) \<Longrightarrow> x = v"
    by (induction es) (auto split: if_splits)
  with True a show ?thesis by (simp add: set_entry_def)
next
  case False
  assume a: "(k', x) \<in> set (set_entry k v es)" "k' = k"
  with False show ?thesis by (force simp: set_entry_def set_insert_entry)
qed

lemma map_insert_entry:
  "map (\<lambda>(k', e). (k', f e)) (insert_entry k v es) = insert_entry k (f v) (map (\<lambda>(k', e). (k', f e)) es)"
  by (induction es) auto

lemma map_set_entry:
  "map (\<lambda>(k', e). (k', f e)) (set_entry k v es) = set_entry k (f v) (map (\<lambda>(k', e). (k', f e)) es)"
proof -
  have a: "fst ` (\<lambda>(k', e). (k', f e)) ` set es = fst ` set es"
    by (force simp: image_iff)
  have b: "map (\<lambda>(k', e). (k', f e)) (map (\<lambda>(k', v'). if k' = k then (k', v) else (k', v')) es)
         = map (\<lambda>(k', v'). if k' = k then (k', f v) else (k', v')) (map (\<lambda>(k', e). (k', f e)) es)"
    by (induction es) auto
  show ?thesis
    by (simp add: set_entry_def a b map_insert_entry del: map_map)
qed

lemma destructured_fields:
  "deviceId (destructured s m) = deviceId m"
  "noiseLevel (destructured s m) = noiseLevel m"
  "audioFeatures (destructured s m) = audioFeatures m"
  "soundType (destructured s m) = soundType m"
  "timestamp (destructured s m) = timestamp m"
  by (simp_all add: destructured_def)

lemma classifiedSoundType_destructured:
  "classifiedSoundType cl (destructured s m) = classifiedSoundType cl m"
  by (simp add: classifiedSoundType_def destructured_fields split: option.splits)

lemma on_message_passes:
  "deviceId m = Some d \<Longrightarrow> d \<noteq> [] \<Longrightarrow>
   on_message now conn (Json m) s =
     (upsert now conn (destructured s m) d s,
      send (mainWindow s)
        (DeviceData d (tableId (destructured s m)) (noiseLevel m)
           (classifiedSoundType (soundClassifier s) m) (time_or (timestamp m) now))
      @ (if js_ge (noiseLevel m) NOISE_THRESHOLD
         then send (mainWindow s)
                (NoiseExceed d (d_tableId (read_device (upsert now conn (destructured s m) d s) d))
                   (noiseLevel m) (classifiedSoundType (soundClassifier s) m)
                   (time_or (timestamp m) now))
         else [])
      @ checkForMismatch (mainWindow s)
          ((d, read_device (upsert now conn (destructured s m) d s) d)
             # entries (upsert now conn (destructured s m) d s)) d)"
  by (simp add: on_message_def Let_def destructured_fields classifiedSoundType_destructured)

lemma on_message_rejected:
  "p = Unparsable \<or> p = JsonNull \<or> (\<exists>m. p = Json m \<and> \<not> truthy_str (deviceId m)) \<Longrightarrow>
   on_message now conn p s = (s, [])"
  by (auto simp: on_message_def truthy_str_def split: option.splits)

lemma devices_on_message:
  "devices (fst (on_message now conn p s)) =
     (case p of Json m \<Rightarrow>
        (case deviceId m of Some d \<Rightarrow>
           if d = [] then devices s
           else devices (upsert now conn (destructured s m) d s)
         | None \<Rightarrow> devices s)
      | _ \<Rightarrow> devices s)"
  by (simp add: on_message_def Let_def split: payload.splits option.splits)

lemma clients_upsert: "clients (upsert now conn m k s) = clients s"
  by (simp add: upsert_def split: target.splits)

lemma mainWindow_upsert: "mainWindow (upsert now conn m k s) = mainWindow s"
  by (simp add: upsert_def split: target.splits)

lemma classifier_upsert: "soundClassifier (upsert now conn m k s) = soundClassifier s"
  by (simp add: upsert_def split: target.splits)

lemma clients_on_message: "clients (fst (on_message now conn p s)) = clients s"
  by (simp add: on_message_def Let_def clients_upsert split: payload.splits option.splits)

lemma mainWindow_on_message: "mainWindow (fst (on_message now conn p s)) = mainWindow s"
  by (simp add: on_message_def Let_def mainWindow_upsert split: payload.splits option.splits)

lemma classifier_on_message: "soundClassifier (fst (on_message now conn p s)) = soundClassifier s"
  by (simp add: on_message_def Let_def classifier_upsert split: payload.splits option.splits)

lemma keys_upsert:
  "fst ` set (devices (upsert now conn m k s)) =
     (if k = ''__proto__'' then fst ` set (devices s) else insert k (fst ` set (devices s)))"
  by (simp add: upsert_def target_of_def keys_set_entry split: option.splits entry.splits)

lemma map_of_upsert_other:
  "k' \<noteq> k \<Longrightarrow> map_of (devices (upsert now conn m k s)) k' = map_of (devices s) k'"
  by (simp add: upsert_def target_of_def map_of_set_entry split: option.splits entry.splits)

lemma prototype_upsert:
  "k \<noteq> ''__proto__'' \<Longrightarrow> prototype (upsert now conn m k s) = prototype s"
  by (simp add: upsert_def target_of_def split: option.splits entry.splits)

lemma prototype_step:
  "''__proto__'' \<notin> sighted x \<Longrightarrow> prototype (fst (step x s)) = prototype s"
proof (cases x)
  case (Message c p now)
  assume "''__proto__'' \<notin> sighted x"
  with Message show ?thesis
    by (cases p) (auto simp: on_message_def Let_def prototype_upsert split: option.splits)
qed (simp_all add: on_connection_def on_pong_def on_close_def sweep_def)

lemma map_of_entries:
  "map_of (entries s) d = map_option (fields (prototype s)) (map_of (devices s) d)"
  by (simp add: entries_def map_of_map)

lemma devices_sweep: "devices (fst (sweep now s)) = devices s"
  by (simp add: sweep_def)

lemma prototype_sweep: "prototype (fst (sweep now s)) = prototype s"
  by (simp add: sweep_def)

lemma keys_step:
  "fst ` set (devices s) \<subseteq> fst ` set (devices (fst (step x s)))
   \<and> fst ` set (devices (fst (step x s))) \<subseteq> fst ` set (devices s) \<union> sighted x"
proof (cases x)
  case (Message c p now)
  then show ?thesis
    by (cases p) (auto simp: devices_on_message keys_upsert split: option.splits)
qed (simp_all add: on_connection_def on_pong_def on_close_def devices_sweep)

lemma keys_run: "fst ` set (devices s) \<subseteq> fst ` set (devices (fst (run xs s)))"
proof (induction xs arbitrary: s)
  case Nil
  show ?case by simp
next
  case (Cons x xs)
  have "fst ` set (devices s) \<subseteq> fst ` set (devices (fst (step x s)))"
    by (simp add: keys_step)
  also have "\<dots> \<subseteq> fst ` set (devices (fst (run xs (fst (step x s)))))"
    by (rule Cons.IH)
  finally show ?case by simp
qed

lemma entry_step:
  "d \<notin> sighted x \<Longrightarrow> map_of (devices (fst (step x s))) d = map_of (devices s) d"
proof (cases x)
  case (Message c p now)
  assume "d \<notin> sighted x"
  with Message show ?thesis
    by (cases p) (auto simp: devices_on_message map_of_upsert_other split: option.splits)
qed (simp_all add: on_connection_def on_pong_def on_close_def devices_sweep)

text \<open>
  Claim C8: a payload that cannot be decoded as JSON, or that decodes but lacks a
  \<open>deviceId\<close>, is a no-op: the registry is unchanged, nothing is emitted, and the
  connection stays open. The handler returns the state it was given (registry, clients
  with their flags, window, classifier) and no event. A payload that decodes to \<open>null\<close>
  and one whose \<open>deviceId\<close> is the empty string are rejected in the same way.
\<close>

theorem rejected_payload_is_noop:
  assumes "p = Unparsable \<or> p = JsonNull \<or> (\<exists>m. p = Json m \<and> \<not> truthy_str (deviceId m))"
  shows "step (Message conn p now) s = (s, [])
         \<and> devices (fst (on_message now conn p s)) = devices s
         \<and> clients (fst (on_message now conn p s)) = clients s
         \<and> snd (on_message now conn p s) = []"
  using on_message_rejected [OF assms] by simp

theorem rejected_payload_is_noop_witness:
  "step (Message 1 Unparsable 1000)
      (fst (run [Connection 1, Message 1 (Json (reading ''d1'' ''T1'' 80)) 500] (listening True True)))
     = (fst (run [Connection 1, Message 1 (Json (reading ''d1'' ''T1'' 80)) 500] (listening True True)), [])
   \<and> step (Message 1 JsonNull 1000) (listening True True) = (listening True True, [])
   \<and> step (Message 1 (Json ((reading ''d1'' ''T1'' 80)\<lparr>deviceId := None\<rparr>)) 1000) (listening True True)
       = (listening True True, [])
   \<and> step (Message 1 (Json ((reading ''d1'' ''T1'' 80)\<lparr>deviceId := Some []\<rparr>)) 1000) (listening True True)
       = (listening True True, [])"
  using
    rejected_payload_is_noop [of Unparsable 1 1000
      "fst (run [Connection 1, Message 1 (Json (reading ''d1'' ''T1'' 80)) 500] (listening True True))"]
    rejected_payload_is_noop [of JsonNull 1 1000 "listening True True"]
    rejected_payload_is_noop [of "Json ((reading ''d1'' ''T1'' 80)\<lparr>deviceId := None\<rparr>)" 1 1000
      "listening True True"]
    rejected_payload_is_noop [of "Json ((reading ''d1'' ''T1'' 80)\<lparr>deviceId := Some []\<rparr>)" 1 1000
      "listening True True"]
  by (simp add: truthy_str_def reading_def)

lemmas eval_defs = on_message_passes listening_def reading_def bare_def sweep_def on_connection_def
        offline_events_def send_def js_ge_def NOISE_THRESHOLD_def classifiedSoundType_def
        str_or_lit_def time_or_def checkForMismatch_def update_device_def
        read_device_def entries_def fields_def upsert_def target_of_def inherits_primitive_def
        destructured_def empty_device_def str_or_def truthy_str_def set_entry_def
        INACTIVITY_MS_def Let_def otherDevices_def num_or_def accepted_def passes_def own_key_def
        unpolluted_def is_array_index_def is_digit_def

text \<open>
  Claim C9: the set of \<open>deviceId\<close>s in the registry never shrinks. Whatever happens
  (a connection, a pong, a payload, a close, a sweep with its forced terminations, the
  window coming or going), every key stays; a key that appears with an occurrence is
  the \<open>deviceId\<close> of the payload it delivered, and an accepted payload's \<open>deviceId\<close> is a
  key afterwards; the entry of a device changes only by a payload with its \<open>deviceId\<close>
  (and what is read under it only by such a payload or one with the \<open>deviceId\<close>
  \<open>__proto__\<close>); a close and a sweep leave the whole registry as it is, and as it reads.
\<close>

theorem registry_never_shrinks:
  "fst ` set (devices s) \<subseteq> fst ` set (devices (fst (run xs s)))
   \<and> fst ` set (devices (fst (step x s))) \<subseteq> fst ` set (devices s) \<union> sighted x
   \<and> (accepted m d \<longrightarrow> d \<in> fst ` set (devices (fst (step (Message c (Json m) now) s))))
   \<and> (d \<notin> sighted x \<longrightarrow> map_of (devices (fst (step x s))) d = map_of (devices s) d)
   \<and> devices (fst (step (Close c) s)) = devices s
   \<and> devices (fst (step (Sweep now) s)) = devices s
   \<and> (d \<notin> sighted x \<and> ''__proto__'' \<notin> sighted x \<longrightarrow>
         map_of (entries (fst (step x s))) d = map_of (entries s) d)
   \<and> entries (fst (step (Close c) s)) = entries s
   \<and> entries (fst (step (Sweep now) s)) = entries s"
proof (intro conjI impI)
  show "fst ` set (devices s) \<subseteq> fst ` set (devices (fst (run xs s)))"
    by (rule keys_run)
  show "fst ` set (devices (fst (step x s))) \<subseteq> fst ` set (devices s) \<union> sighted x"
    using keys_step [of s x] by simp
  show "d \<in> fst ` set (devices (fst (step (Message c (Json m) now) s)))" if "accepted m d"
    using that by (simp add: accepted_def own_key_def devices_on_message keys_upsert)
  show "map_of (devices (fst (step x s))) d = map_of (devices s) d" if "d \<notin> sighted x"
    using that by (rule entry_step)
  show "devices (fst (step (Close c) s)) = devices s"
    by (simp add: on_close_def)
  show "devices (fst (step (Sweep now) s)) = devices s"
    by (simp add: devices_sweep)
  show "map_of (entries (fst (step x s))) d = map_of (entries s) d"
    if "d \<notin> sighted x \<and> ''__proto__'' \<notin> sighted x"
    using that by (simp add: map_of_entries entry_step prototype_step)
  show "entries (fst (step (Close c) s)) = entries s"
    by (simp add: entries_def on_close_def)
  show "entries (fst (step (Sweep now) s)) = entries s"
    by (simp add: entries_def sweep_def)
qed

theorem registry_never_shrinks_witness:
  "{''d1''} \<subseteq> fst ` set (devices (fst (run [Close 1, Sweep 30000, Message 2 (Json (bare ''d2'')) 31000]
        (fst (step (Message 1 (Json (reading ''d1'' ''T1'' 80)) 1000) (listening True True))))))
   \<and> accepted (reading ''d1'' ''T1'' 80) ''d1''
   \<and> ''d1'' \<notin> sighted (Close 1)
   \<and> map_of (devices (fst (step (Close 1)
        (fst (step (Message 1 (Json (reading ''d1'' ''T1'' 80)) 1000) (listening True True))))))  ''d1''
      = Some (Obj \<lparr>lastSeen = Some 1000, d_tableId = Some ''T1'', lastNoise = Some 80, ws = Some 1,
              lastSoundType = None, classification = None\<rparr>)"
  using
    registry_never_shrinks [where
      s = "fst (step (Message 1 (Json (reading ''d1'' ''T1'' 80)) 1000) (listening True True))"
      and xs = "[Close 1, Sweep 30000, Message 2 (Json (bare ''d2'')) 31000]"
      and x = "Close 1" and d = "''d1''" and m = "reading ''d1'' ''T1'' 80" and c = 1
      and now = 30000]
  by (simp add: eval_defs)

section \<open>Connections and liveness\<close>

lemma fst_ping_clients: "fst (ping_clients cs) = map (\<lambda>(c, alive). (c, False)) (filter snd cs)"
  by (induction cs rule: ping_clients.induct) auto

lemma snd_ping_clients:
  "snd (ping_clients cs) = map (\<lambda>(c, alive). if alive then Ping c else Terminate c) cs"
  by (induction cs rule: ping_clients.induct) auto

lemma clients_sweep: "clients (fst (sweep now s)) = map (\<lambda>(c, alive). (c, False)) (filter snd (clients s))"
  by (simp add: sweep_def fst_ping_clients)

lemma step_keeps_flag_down:
  assumes "\<forall>alive. (c, alive) \<in> set (clients s) \<longrightarrow> \<not> alive" "x \<noteq> Pong c" "x \<noteq> Connection c"
  shows "\<forall>alive. (c, alive) \<in> set (clients (fst (step x s))) \<longrightarrow> \<not> alive"
proof (cases x)
  case (Connection c')
  with assms show ?thesis by (auto simp: on_connection_def split: if_splits)
next
  case (Pong c')
  with assms show ?thesis by (auto simp: on_pong_def split: if_splits)
next
  case (Message c' p now)
  with assms show ?thesis by (simp add: clients_on_message)
next
  case (Close c')
  with assms show ?thesis by (auto simp: on_close_def)
next
  case (Sweep now)
  then show ?thesis by (auto simp: clients_sweep)
qed (use assms in simp_all)

lemma run_keeps_flag_down:
  assumes "\<forall>alive. (c, alive) \<in> set (clients s) \<longrightarrow> \<not> alive"
    and "\<forall>x \<in> set xs. x \<noteq> Pong c \<and> x \<noteq> Connection c"
  shows "\<forall>alive. (c, alive) \<in> set (clients (fst (run xs s))) \<longrightarrow> \<not> alive"
  using assms
proof (induction xs arbitrary: s)
  case Nil
  then show ?case by simp
next
  case (Cons x xs)
  have "\<forall>alive. (c, alive) \<in> set (clients (fst (step x s))) \<longrightarrow> \<not> alive"
    using Cons.prems by (intro step_keeps_flag_down) auto
  moreover have "\<forall>x \<in> set xs. x \<noteq> Pong c \<and> x \<noteq> Connection c"
    using Cons.prems by simp
  ultimately show ?case using Cons.IH by simp
qed

lemma unanswered_probe_ends_connection:
  assumes "\<forall>x \<in> set xs. x \<noteq> Pong c \<and> x \<noteq> Connection c"
  shows "c \<notin> fst ` set (clients (fst (sweep t2 (fst (run xs (fst (sweep t1 s)))))))"
proof -
  have "\<forall>alive. (c, alive) \<in> set (clients (fst (sweep t1 s))) \<longrightarrow> \<not> alive"
    by (auto simp: clients_sweep)
  then have "\<forall>alive. (c, alive) \<in> set (clients (fst (run xs (fst (sweep t1 s))))) \<longrightarrow> \<not> alive"
    using assms by (rule run_keeps_flag_down)
  then show ?thesis by (auto simp: clients_sweep)
qed

lemma unanswered_probe_terminates:
  assumes "\<forall>x \<in> set xs. x \<noteq> Pong c \<and> x \<noteq> Connection c"
    and "c \<in> fst ` set (clients (fst (run xs (fst (sweep t1 s)))))"
  shows "Terminate c \<in> set (snd (sweep t2 (fst (run xs (fst (sweep t1 s))))))"
proof -
  have "\<forall>alive. (c, alive) \<in> set (clients (fst (sweep t1 s))) \<longrightarrow> \<not> alive"
    by (auto simp: clients_sweep)
  then have *: "\<forall>alive. (c, alive) \<in> set (clients (fst (run xs (fst (sweep t1 s))))) \<longrightarrow> \<not> alive"
    using assms(1) by (rule run_keeps_flag_down)
  from assms(2) obtain alive where "(c, alive) \<in> set (clients (fst (run xs (fst (sweep t1 s)))))"
    by auto
  with * have "(c, False) \<in> set (clients (fst (run xs (fst (sweep t1 s)))))"
    by (cases alive) auto
  then show ?thesis by (force simp: sweep_def snd_ping_clients)
qed

lemma connection_sets_flag: "map_of (clients (on_connection c s)) c = Some True"
proof -
  have a: "c \<in> fst ` set cs \<Longrightarrow>
      map_of (map (\<lambda>(c', alive). if c' = c then (c', True) else (c', alive)) cs) c = Some True" for cs
    by (induction cs) (force simp: image_iff)+
  have b: "c \<notin> fst ` set cs \<Longrightarrow> map_of (cs @ [(c, True)]) c = Some True" for cs
    by (induction cs) auto
  show ?thesis by (simp add: on_connection_def a b del: map_of_append)
qed

lemma pong_sets_flag:
  "c \<in> fst ` set (clients s) \<Longrightarrow> map_of (clients (on_pong c s)) c = Some True"
proof -
  have a: "c \<in> fst ` set cs \<Longrightarrow>
      map_of (map (\<lambda>(c', alive). if c' = c then (c', True) else (c', alive)) cs) c = Some True" for cs
    by (induction cs) (force simp: image_iff)+
  assume "c \<in> fst ` set (clients s)"
  then show ?thesis by (simp add: on_pong_def a)
qed

lemma sweep_acts:
  "(c, alive) \<in> set (clients s) \<Longrightarrow>
     (if alive then Ping c \<in> set (snd (sweep now s)) \<and> (c, False) \<in> set (clients (fst (sweep now s)))
      else Terminate c \<in> set (snd (sweep now s)))"
  by (force simp: sweep_def snd_ping_clients fst_ping_clients)

text \<open>
  Claim C7, as the specification has it: the liveness flag of a connection is set on
  accept, on a pong and on any inbound payload, and cleared before a probe is sent; a
  sweep terminates a connection whose flag is clear and otherwise clears the flag and
  pings.

  The message handler never touches the flag. A connection that is accepted, probed by
  the sweep at 5000, and then delivers a reading at 7000 still has its flag clear after
  that payload, and the sweep at 10000 terminates it.
\<close>

theorem payload_does_not_reset_liveness:
  "clients (fst (run [Connection 1, Sweep 5000, Message 1 (Json (reading ''d1'' ''T1'' 50)) 7000]
        (listening True True))) = [(1, False)]
   \<and> snd (run [Connection 1, Sweep 5000, Message 1 (Json (reading ''d1'' ''T1'' 50)) 7000, Sweep 10000]
        (listening True True))
     = [Ping 1, DeviceData ''d1'' (Some ''T1'') (Some 50) ''unknown'' 7000, Terminate 1]"
  by (simp add: eval_defs)

text \<open>
  Claim C7, amended: the flag is set on accept and on a pong, and on nothing else; a
  payload leaves every flag as it was. A sweep terminates each client whose flag is
  clear, and clears the flag of and pings each other client. So a connection from
  which no pong arrives between two consecutive sweeps (and which is not accepted
  anew) is not a client after the second sweep, whatever payloads it delivered in
  between; if it was still a client when the second sweep began, that sweep terminates
  it. The sweep is the callback of \<open>setInterval(..., 5000)\<close>; the period itself is
  outside the model.
\<close>

theorem liveness_flag_and_sweep:
  "map_of (clients (on_connection c s)) c = Some True
   \<and> (c \<in> fst ` set (clients s) \<longrightarrow> map_of (clients (on_pong c s)) c = Some True)
   \<and> clients (fst (on_message now c p s)) = clients s
   \<and> ((c, alive) \<in> set (clients s) \<longrightarrow>
        (if alive
         then Ping c \<in> set (snd (sweep t s)) \<and> (c, False) \<in> set (clients (fst (sweep t s)))
         else Terminate c \<in> set (snd (sweep t s))))
   \<and> ((\<forall>x \<in> set xs. x \<noteq> Pong c \<and> x \<noteq> Connection c) \<longrightarrow>
        c \<notin> fst ` set (clients (fst (sweep t2 (fst (run xs (fst (sweep t1 s)))))))
        \<and> (c \<in> fst ` set (clients (fst (run xs (fst (sweep t1 s))))) \<longrightarrow>
             Terminate c \<in> set (snd (sweep t2 (fst (run xs (fst (sweep t1 s))))))))"
proof (intro conjI impI)
  show "map_of (clients (on_connection c s)) c = Some True"
    by (rule connection_sets_flag)
  show "map_of (clients (on_pong c s)) c = Some True" if "c \<in> fst ` set (clients s)"
    using that by (rule pong_sets_flag)
  show "clients (fst (on_message now c p s)) = clients s"
    by (rule clients_on_message)
  show "if alive
        then Ping c \<in> set (snd (sweep t s)) \<and> (c, False) \<in> set (clients (fst (sweep t s)))
        else Terminate c \<in> set (snd (sweep t s))" if "(c, alive) \<in> set (clients s)"
    using that by (rule sweep_acts)
  show "c \<notin> fst ` set (clients (fst (sweep t2 (fst (run xs (fst (sweep t1 s)))))))"
    if "\<forall>x \<in> set xs. x \<noteq> Pong c \<and> x \<noteq> Connection c"
    using that by (rule unanswered_probe_ends_connection)
  show "Terminate c \<in> set (snd (sweep t2 (fst (run xs (fst (sweep t1 s))))))"
    if "\<forall>x \<in> set xs. x \<noteq> Pong c \<and> x \<noteq> Connection c"
      and "c \<in> fst ` set (clients (fst (run xs (fst (sweep t1 s)))))"
    using that by (rule unanswered_probe_terminates)
qed

theorem liveness_flag_and_sweep_witness:
  "map_of (clients (on_connection 1 (listening True True))) 1 = Some True
   \<and> map_of (clients (on_pong 1 (fst (sweep 5000 (on_connection 1 (listening True True)))))) 1 = Some True
   \<and> Ping 1 \<in> set (snd (sweep 5000 (on_connection 1 (listening True True))))
   \<and> 1 \<notin> fst ` set (clients (fst (sweep 10000
        (fst (run [Message 1 (Json (reading ''d1'' ''T1'' 50)) 7000]
           (fst (sweep 5000 (on_connection 1 (listening True True)))))))))
   \<and> Terminate 1 \<in> set (snd (sweep 10000
        (fst (run [Message 1 (Json (reading ''d1'' ''T1'' 50)) 7000]
           (fst (sweep 5000 (on_connection 1 (listening True True))))))))"
  using
    liveness_flag_and_sweep [of 1 "fst (sweep 5000 (on_connection 1 (listening True True)))"
      7000 Unparsable False 10000 "[]" 10000 5000]
    liveness_flag_and_sweep [of 1 "on_connection 1 (listening True True)"
      7000 Unparsable True 5000 "[Message 1 (Json (reading ''d1'' ''T1'' 50)) 7000]" 10000 5000]
  by (simp add: clients_sweep clients_on_message on_connection_def listening_def)

section \<open>Alerts and the registry entry after a message\<close>

lemma filter_send: "filter P (send w e) = (if w \<and> P e then [e] else [])"
  by (simp add: send_def)

lemma checkForMismatch_cases:
  "checkForMismatch w devs d = []
   \<or> (\<exists>t n ps. checkForMismatch w devs d = [PossibleSensorIssue d t n ps])"
  by (simp add: checkForMismatch_def send_def Let_def split: option.splits)

lemma checkForMismatch_no_exceed: "filter is_noise_exceed (checkForMismatch w devs d) = []"
  using checkForMismatch_cases [of w devs d] by auto


lemma tableId_update_device:
  "d_tableId (update_device now conn cl m old) = str_or (tableId m) (d_tableId old)"
  by (simp add: update_device_def Let_def split: option.splits)

lemma lastNoise_update_device: "lastNoise (update_device now conn cl m old) = noiseLevel m"
  by (simp add: update_device_def Let_def split: option.splits)

lemma lastSeen_update_device: "lastSeen (update_device now conn cl m old) = Some now"
  by (simp add: update_device_def Let_def split: option.splits)

lemma ws_update_device: "ws (update_device now conn cl m old) = Some conn"
  by (simp add: update_device_def Let_def split: option.splits)

lemma lastSoundType_update_device:
  "lastSoundType (update_device now conn cl m old) =
     (case audioFeatures m of
        Some af \<Rightarrow> Some (classifiedSoundType cl m)
      | None \<Rightarrow> if truthy_str (soundType m) then soundType m else lastSoundType old)"
  by (simp add: update_device_def classifiedSoundType_def Let_def split: option.splits)

lemma classification_update_device:
  "classification (update_device now conn cl m old) =
     (case audioFeatures m of
        Some af \<Rightarrow> Some (classify cl (Some (spread (noiseLevel m) af)))
      | None \<Rightarrow> classification old)"
  by (simp add: update_device_def Let_def split: option.splits)

lemma exceed_on_message:
  "passes m d \<Longrightarrow>
   filter is_noise_exceed (snd (on_message now conn (Json m) s)) =
     (if mainWindow s \<and> js_ge (noiseLevel m) 65
      then [NoiseExceed d (d_tableId (read_device (fst (on_message now conn (Json m) s)) d))
              (noiseLevel m) (classifiedSoundType (soundClassifier s) m) (time_or (timestamp m) now)]
      else [])"
  by (simp add: passes_def on_message_passes filter_send checkForMismatch_no_exceed
        NOISE_THRESHOLD_def)

lemma no_window_no_events:
  "\<not> mainWindow s \<Longrightarrow> snd (on_message now conn p s) = []"
  by (simp add: on_message_def Let_def send_def checkForMismatch_def split: payload.splits option.splits)


lemma checkForMismatch_entry:
  assumes "map_of devs d = Some dev" "d_tableId dev = Some t" "t \<noteq> []"
  shows "checkForMismatch w devs d =
     (if w \<and> 65 \<le> num_or (lastNoise dev) 0 \<and> otherDevices devs d t \<noteq> []
          \<and> list_all (\<lambda>(id, p). num_or (lastNoise p) 0 < 55) (otherDevices devs d t)
      then [PossibleSensorIssue d t (num_or (lastNoise dev) 0)
              (map (\<lambda>(id, p). (id, num_or (lastNoise p) 0)) (otherDevices devs d t))]
      else [])"
  using assms by (simp add: checkForMismatch_def Let_def send_def NOISE_THRESHOLD_def)


subsection \<open>States without a \<open>__proto__\<close> payload\<close>

lemma fields_Obj: "fields proto (Obj own) = own"
  by (simp add: fields_def)

lemma unpolluted_destructured: "unpolluted s \<Longrightarrow> destructured s m = m"
  by (cases "tableId m") (simp_all add: unpolluted_def destructured_def empty_device_def)

lemma unpolluted_target:
  assumes "unpolluted s" "own_key d"
  shows "target_of s d = AnObject (read_device s d)"
proof (cases "map_of (devices s) d")
  case None
  with assms show ?thesis
    by (simp add: unpolluted_def own_key_def target_of_def read_device_def inherits_primitive_def
          empty_device_def truthy_str_def)
next
  case (Some e)
  then have "e \<in> snd ` set (devices s)"
    by (force dest: map_of_SomeD)
  with assms(1) obtain own where "e = Obj own"
    by (cases e) (auto simp: unpolluted_def)
  with Some assms show ?thesis
    by (simp add: own_key_def target_of_def read_device_def fields_def)
qed

lemma unpolluted_on_message:
  assumes "accepted m d" "unpolluted s"
  shows "fst (on_message now conn (Json m) s) =
     s\<lparr>devices :=
         set_entry d (Obj (update_device now conn (soundClassifier s) m (read_device s d))) (devices s)\<rparr>"
  using assms
  by (simp add: accepted_def on_message_passes unpolluted_destructured upsert_def unpolluted_target)

lemma set_set_entry: "set (set_entry k v es) \<subseteq> insert (k, v) (set es)"
  by (auto simp: set_entry_def set_insert_entry split: if_splits)

lemma unpolluted_after:
  assumes "accepted m d" "unpolluted s"
  shows "unpolluted (fst (on_message now conn (Json m) s))"
proof -
  have "Prim \<notin> snd ` set (set_entry d (Obj v) (devices s))" for v
    using assms(2) set_set_entry [of d "Obj v" "devices s"] by (force simp: unpolluted_def)
  with assms show ?thesis
    by (simp add: unpolluted_on_message) (simp add: unpolluted_def)
qed

lemma unpolluted_listening: "unpolluted (listening window ready)"
  by (simp add: unpolluted_def listening_def)

lemma unpolluted_step:
  assumes "unpolluted s" "''__proto__'' \<notin> sighted x"
  shows "unpolluted (fst (step x s))"
proof (cases x)
  case (Message c p now)
  show ?thesis
  proof (cases p)
    case (Json m)
    show ?thesis
    proof (cases "truthy_str (deviceId m)")
      case True
      then obtain d where d: "deviceId m = Some d" "d \<noteq> []"
        by (auto simp: truthy_str_def split: option.splits)
      with assms(2) Message Json have "accepted m d"
        by (simp add: accepted_def own_key_def)
      with assms(1) Message Json show ?thesis
        by (simp add: unpolluted_after)
    next
      case False
      with assms(1) Message Json show ?thesis
        by (simp add: on_message_rejected)
    qed
  qed (use assms(1) Message in \<open>simp_all add: on_message_def\<close>)
qed (use assms(1) in \<open>simp_all add: unpolluted_def on_connection_def on_pong_def on_close_def sweep_def\<close>)

lemma unpolluted_run:
  assumes "unpolluted s" "\<forall>x \<in> set xs. ''__proto__'' \<notin> sighted x"
  shows "unpolluted (fst (run xs s))"
  using assms
proof (induction xs arbitrary: s)
  case Nil
  then show ?case by simp
next
  case (Cons x xs)
  then have "unpolluted (fst (step x s))"
    by (intro unpolluted_step) auto
  with Cons show ?case by simp
qed

lemma read_device_after:
  assumes "accepted m d" "unpolluted s"
  shows "read_device (fst (on_message now conn (Json m) s)) d
      = update_device now conn (soundClassifier s) m (read_device s d)"
  using assms
  by (simp add: unpolluted_on_message) (simp add: read_device_def map_of_set_entry fields_def
        accepted_def own_key_def)


lemma map_of_after:
  assumes "accepted m d" "unpolluted s"
  shows "map_of (devices (fst (on_message now conn (Json m) s))) k =
     (if k = d then Some (Obj (update_device now conn (soundClassifier s) m (read_device s d)))
      else map_of (devices s) k)"
  using assms by (simp add: unpolluted_on_message map_of_set_entry)

text \<open>
  Claim C4, as the specification has it: for an accepted message the upsert sets
  \<open>lastSeen\<close> to the message's timestamp (the receipt time only if it carries none),
  overwrites \<open>tableId\<close> only if the message supplies one, sets the last noise level, and
  never overwrites a field with an absent value.

  The handler assigns \<open>lastSeen = Date.now()\<close> and \<open>lastNoise = noiseLevel\<close>
  unconditionally. Device \<open>d1\<close> reports noise 70 at time 100; then the message
  \<open>{ deviceId: 'd1', timestamp: 1000 }\<close> arrives at time 5000: \<open>lastSeen\<close> becomes 5000,
  not 1000, and \<open>lastNoise\<close>, which was 70, becomes \<open>undefined\<close>.

  A \<open>tableId\<close> is also overwritten by a message that supplies none, once a payload with
  the \<open>deviceId\<close> \<open>__proto__\<close> has been handled. Device \<open>d1\<close> reports from table \<open>T0\<close>; the
  payload \<open>{ deviceId: '__proto__', tableId: 'T1' }\<close> creates no entry and leaves \<open>T1\<close> on
  \<open>Object.prototype\<close>; then \<open>{ deviceId: 'd1' }\<close> moves \<open>d1\<close> to \<open>T1\<close>.
\<close>

theorem registry_upsert_overwrites:
  "timestamp ((bare ''d1'')\<lparr>timestamp := Some 1000\<rparr>) = Some 1000
   \<and> lastSeen (read_device (fst (on_message 5000 2
         (Json ((bare ''d1'')\<lparr>timestamp := Some 1000\<rparr>))
         (fst (on_message 100 1 (Json (reading ''d1'' ''T1'' 70)) (listening True True))))) ''d1'')
       = Some 5000
   \<and> lastNoise (read_device
         (fst (on_message 100 1 (Json (reading ''d1'' ''T1'' 70)) (listening True True))) ''d1'')
       = Some 70
   \<and> noiseLevel ((bare ''d1'')\<lparr>timestamp := Some 1000\<rparr>) = None
   \<and> lastNoise (read_device (fst (on_message 5000 2
         (Json ((bare ''d1'')\<lparr>timestamp := Some 1000\<rparr>))
         (fst (on_message 100 1 (Json (reading ''d1'' ''T1'' 70)) (listening True True))))) ''d1'')
       = None
   \<and> devices (fst (run [Message 1 (Json (reading ''d1'' ''T0'' 50)) 100,
                        Message 2 (Json ((bare ''__proto__'')\<lparr>tableId := Some ''T1''\<rparr>)) 200]
                   (listening True True)))
       = [(''d1'', Obj \<lparr>lastSeen = Some 100, d_tableId = Some ''T0'', lastNoise = Some 50,
                        ws = Some 1, lastSoundType = None, classification = None\<rparr>)]
   \<and> tableId (bare ''d1'') = None
   \<and> devices (fst (run [Message 1 (Json (reading ''d1'' ''T0'' 50)) 100,
                        Message 2 (Json ((bare ''__proto__'')\<lparr>tableId := Some ''T1''\<rparr>)) 200,
                        Message 1 (Json (bare ''d1'')) 300]
                   (listening True True)))
       = [(''d1'', Obj \<lparr>lastSeen = Some 300, d_tableId = Some ''T1'', lastNoise = None,
                        ws = Some 1, lastSoundType = None, classification = None\<rparr>)]"
  by (simp add: eval_defs)

text \<open>
  Claim C4, amended: for an accepted message with a \<open>deviceId\<close> \<open>d\<close> other than
  \<open>__proto__\<close>, handled while no payload with the \<open>deviceId\<close> \<open>__proto__\<close> has been, the
  registry has an entry for \<open>d\<close> afterwards, in which \<open>lastSeen\<close> is the receipt time
  (never the message's timestamp), \<open>tableId\<close> is the message's if that is a non-empty
  string and the previous one otherwise, \<open>lastNoise\<close> is the message's \<open>noiseLevel\<close>
  (\<open>undefined\<close> when the message has none), \<open>ws\<close> is the delivering connection,
  \<open>lastSoundType\<close> is the classifier's label when the message has audio features, else
  the message's \<open>soundType\<close> if it has one, else unchanged, and \<open>classification\<close> changes
  only when the message has audio features. The entry of every other device is
  unchanged, and the state is again one without a \<open>__proto__\<close> payload.
\<close>

theorem registry_upsert:
  assumes "accepted m d" and "unpolluted s"
  shows "map_of (devices (fst (on_message now conn (Json m) s))) d
           = Some (Obj (read_device (fst (on_message now conn (Json m) s)) d))
     \<and> lastSeen (read_device (fst (on_message now conn (Json m) s)) d) = Some now
     \<and> d_tableId (read_device (fst (on_message now conn (Json m) s)) d)
         = (if truthy_str (tableId m) then tableId m else d_tableId (read_device s d))
     \<and> lastNoise (read_device (fst (on_message now conn (Json m) s)) d) = noiseLevel m
     \<and> ws (read_device (fst (on_message now conn (Json m) s)) d) = Some conn
     \<and> lastSoundType (read_device (fst (on_message now conn (Json m) s)) d)
         = (case audioFeatures m of
              Some af \<Rightarrow> Some (classifiedSoundType (soundClassifier s) m)
            | None \<Rightarrow>
                if truthy_str (soundType m) then soundType m
                else lastSoundType (read_device s d))
     \<and> classification (read_device (fst (on_message now conn (Json m) s)) d)
         = (case audioFeatures m of
              Some af \<Rightarrow> Some (classify (soundClassifier s) (Some (spread (noiseLevel m) af)))
            | None \<Rightarrow> classification (read_device s d))
     \<and> (\<forall>k. k \<noteq> d \<longrightarrow>
           map_of (devices (fst (on_message now conn (Json m) s))) k = map_of (devices s) k)
     \<and> unpolluted (fst (on_message now conn (Json m) s))"
proof -
  have "unpolluted (fst (on_message now conn (Json m) s))"
    using assms by (rule unpolluted_after)
  then show ?thesis
    by (simp add: read_device_after [OF assms] map_of_after [OF assms] lastSeen_update_device
          tableId_update_device lastNoise_update_device ws_update_device
          lastSoundType_update_device classification_update_device str_or_def)
qed

theorem registry_upsert_witness:
  "accepted ((bare ''d1'')\<lparr>timestamp := Some 1000\<rparr>) ''d1''
   \<and> unpolluted (fst (on_message 100 1 (Json (reading ''d1'' ''T1'' 70)) (listening True True)))
   \<and> read_device (fst (on_message 5000 2
       (Json ((bare ''d1'')\<lparr>timestamp := Some 1000\<rparr>))
       (fst (on_message 100 1 (Json (reading ''d1'' ''T1'' 70)) (listening True True))))) ''d1''
     = \<lparr>lastSeen = Some 5000, d_tableId = Some ''T1'', lastNoise = None, ws = Some 2,
             lastSoundType = None, classification = None\<rparr>
   \<and> map_of (devices (fst (on_message 5000 2
       (Json ((bare ''d1'')\<lparr>timestamp := Some 1000\<rparr>))
       (fst (on_message 100 1 (Json (reading ''d2'' ''T1'' 70)) (listening True True)))))) ''d2''
     = Some (Obj \<lparr>lastSeen = Some 100, d_tableId = Some ''T1'', lastNoise = Some 70, ws = Some 1,
             lastSoundType = None, classification = None\<rparr>)"
proof -
  have a: "accepted ((bare ''d1'')\<lparr>timestamp := Some 1000\<rparr>) ''d1''"
    by (simp add: accepted_def bare_def own_key_def)
  have u: "unpolluted (fst (on_message 100 1 (Json (reading d ''T1'' 70)) (listening True True)))"
    if "d = ''d1'' \<or> d = ''d2''" for d
    using that by (auto simp: eval_defs)
  show ?thesis
    using a u [of "''d1''"]
      registry_upsert [OF a u [of "''d1''"], of 5000 2]
      registry_upsert [OF a u [of "''d2''"], of 5000 2]
    by (simp add: eval_defs)
qed

text \<open>
  Claim C3, as the specification has it: every accepted message whose noise level is
  at least the threshold 65 yields exactly one \<open>noise_exceed\<close> alert, and one below it
  none. Every send is guarded by \<open>if (mainWindow)\<close>: while the window does not exist (the
  server keeps running without one) a reading of 80 yields no event at all.
\<close>

theorem noise_exceed_needs_window:
  "snd (on_message 1000 1 (Json (reading ''d1'' ''T1'' 80)) (listening False True)) = []"
  by (simp add: eval_defs)

text \<open>
  Claim C3, amended: while the window exists, a message that passes
  \<open>if (!deviceId) return\<close> yields exactly one \<open>noise_exceed\<close> alert if its \<open>noiseLevel\<close> is a
  number \<open>\<ge> 65\<close> and none otherwise (below the threshold or absent). The alert carries the
  \<open>deviceId\<close>, the \<open>tableId\<close> that \<open>devices[deviceId]\<close> reads once the message has been
  recorded, the noise level, the classified sound type, and the message's timestamp or
  else the receipt time. The condition looks at nothing but the message, so the same
  message handled again (at time \<open>later\<close>) yields the alert again: there is no
  hysteresis and no cooldown. While there is no window the handler sends nothing. This
  holds in every state and for every \<open>deviceId\<close>.
\<close>

theorem noise_exceed_alert:
  assumes "passes m d"
  shows "(mainWindow s \<longrightarrow>
          filter is_noise_exceed (snd (on_message now conn (Json m) s)) =
            (if js_ge (noiseLevel m) 65
             then [NoiseExceed d
                     (d_tableId (read_device (fst (on_message now conn (Json m) s)) d))
                     (noiseLevel m)
                     (classifiedSoundType (soundClassifier s) m) (time_or (timestamp m) now)]
             else [])
          \<and> filter is_noise_exceed
               (snd (on_message later conn (Json m) (fst (on_message now conn (Json m) s)))) =
            (if js_ge (noiseLevel m) 65
             then [NoiseExceed d
                     (d_tableId (read_device
                        (fst (on_message later conn (Json m) (fst (on_message now conn (Json m) s)))) d))
                     (noiseLevel m)
                     (classifiedSoundType (soundClassifier s) m) (time_or (timestamp m) later)]
             else []))
     \<and> (\<not> mainWindow s \<longrightarrow> snd (on_message now conn (Json m) s) = [])"
proof (intro conjI impI)
  show "filter is_noise_exceed (snd (on_message now conn (Json m) s)) =
            (if js_ge (noiseLevel m) 65
             then [NoiseExceed d
                     (d_tableId (read_device (fst (on_message now conn (Json m) s)) d))
                     (noiseLevel m)
                     (classifiedSoundType (soundClassifier s) m) (time_or (timestamp m) now)]
             else [])" if "mainWindow s"
    using that by (simp add: exceed_on_message [OF assms])
  show "filter is_noise_exceed
               (snd (on_message later conn (Json m) (fst (on_message now conn (Json m) s)))) =
            (if js_ge (noiseLevel m) 65
             then [NoiseExceed d
                     (d_tableId (read_device
                        (fst (on_message later conn (Json m) (fst (on_message now conn (Json m) s)))) d))
                     (noiseLevel m)
                     (classifiedSoundType (soundClassifier s) m) (time_or (timestamp m) later)]
             else [])" if "mainWindow s"
    using that
    by (simp add: exceed_on_message [OF assms] mainWindow_on_message classifier_on_message)
  show "snd (on_message now conn (Json m) s) = []" if "\<not> mainWindow s"
    using that by (rule no_window_no_events)
qed

theorem noise_exceed_alert_witness:
  "passes (reading ''d1'' ''T1'' 80) ''d1''
   \<and> filter is_noise_exceed (snd (on_message 1000 1 (Json (reading ''d1'' ''T1'' 80)) (listening True True)))
       = [NoiseExceed ''d1'' (Some ''T1'') (Some 80) ''unknown'' 1000]
   \<and> filter is_noise_exceed
        (snd (on_message 3000 1 (Json (reading ''d1'' ''T1'' 80))
           (fst (on_message 1000 1 (Json (reading ''d1'' ''T1'' 80)) (listening True True)))))
       = [NoiseExceed ''d1'' (Some ''T1'') (Some 80) ''unknown'' 3000]
   \<and> passes (reading ''d1'' ''T1'' 64) ''d1''
   \<and> filter is_noise_exceed (snd (on_message 1000 1 (Json (reading ''d1'' ''T1'' 64)) (listening True True)))
       = []
   \<and> snd (on_message 1000 1 (Json (reading ''d1'' ''T1'' 80)) (listening False True)) = []
   \<and> passes ((bare ''d2'')\<lparr>noiseLevel := Some 70\<rparr>) ''d2''
   \<and> filter is_noise_exceed
        (snd (on_message 2000 2 (Json ((bare ''d2'')\<lparr>noiseLevel := Some 70\<rparr>))
           (fst (on_message 1000 1 (Json ((bare ''__proto__'')\<lparr>tableId := Some ''T1''\<rparr>))
              (listening True True)))))
       = [NoiseExceed ''d2'' (Some ''T1'') (Some 70) ''unknown'' 2000]"
proof -
  have a: "passes (reading ''d1'' ''T1'' 80) ''d1''" and b: "passes (reading ''d1'' ''T1'' 64) ''d1''"
    and c: "passes ((bare ''d2'')\<lparr>noiseLevel := Some 70\<rparr>) ''d2''"
    by (simp_all add: passes_def reading_def bare_def)
  show ?thesis
    using a b c
      noise_exceed_alert [OF a, of "listening True True" 1000 1 3000]
      noise_exceed_alert [OF b, of "listening True True" 1000 1 3000]
      noise_exceed_alert [OF a, of "listening False True" 1000 1 3000]
      noise_exceed_alert [OF c, of
        "fst (on_message 1000 1 (Json ((bare ''__proto__'')\<lparr>tableId := Some ''T1''\<rparr>))
              (listening True True))" 2000 2 3000]
    by (simp add: eval_defs)
qed




text \<open>
  Claim C10: in the peer check a peer on the same table without a noise reading
  (\<open>lastNoise\<close> is \<open>undefined\<close>) counts as noise 0. It passes the test \<open>< 55\<close>, so when
  the triggering device is at 65 or more and every peer that has a reading is below
  55, the alert is sent (the window existing), and the peer is listed in it with
  noise 0.
\<close>

theorem undefined_peer_noise_is_zero:
  assumes "map_of devs d = Some dev" "d_tableId dev = Some t" "t \<noteq> []"
    and "65 \<le> num_or (lastNoise dev) 0"
    and "(p, peer) \<in> set devs" "p \<noteq> d" "d_tableId peer = Some t" "lastNoise peer = None"
    and "\<forall>(q, other) \<in> set (otherDevices devs d t).
            lastNoise other \<noteq> None \<longrightarrow> num_or (lastNoise other) 0 < 55"
  shows "checkForMismatch True devs d =
           [PossibleSensorIssue d t (num_or (lastNoise dev) 0)
              (map (\<lambda>(id, p). (id, num_or (lastNoise p) 0)) (otherDevices devs d t))]
         \<and> (p, 0) \<in> set (map (\<lambda>(id, p). (id, num_or (lastNoise p) 0)) (otherDevices devs d t))"
proof -
  have m: "(p, peer) \<in> set (otherDevices devs d t)"
    using assms(5-7) by (simp add: otherDevices_def)
  then have ne: "otherDevices devs d t \<noteq> []"
    by auto
  have low: "list_all (\<lambda>(id, p). num_or (lastNoise p) 0 < 55) (otherDevices devs d t)"
    unfolding list_all_iff
  proof (intro ballI)
    fix x assume x: "x \<in> set (otherDevices devs d t)"
    obtain q other where q: "x = (q, other)"
      by (cases x)
    show "(case x of (q, other) \<Rightarrow> num_or (lastNoise other) 0 < 55)"
    proof (cases "lastNoise other")
      case None
      with q show ?thesis by (simp add: num_or_def)
    next
      case (Some r)
      with x q assms(9) show ?thesis by auto
    qed
  qed
  have z: "(p, 0) \<in> set (map (\<lambda>(id, p). (id, num_or (lastNoise p) 0)) (otherDevices devs d t))"
    using m assms(8) by (force simp: num_or_def)
  show ?thesis
    using ne low z assms(4)
    by (simp add: checkForMismatch_entry [OF assms(1-3)])
qed

theorem undefined_peer_noise_is_zero_witness:
  "entries (fst (run [Message 2 (Json ((bare ''d2'')\<lparr>tableId := Some ''T1''\<rparr>)) 1000,
                      Message 1 (Json (reading ''d1'' ''T1'' 70)) 2000] (listening True True)))
     = [(''d2'', \<lparr>lastSeen = Some 1000, d_tableId = Some ''T1'', lastNoise = None, ws = Some 2,
                 lastSoundType = None, classification = None\<rparr>),
        (''d1'', \<lparr>lastSeen = Some 2000, d_tableId = Some ''T1'', lastNoise = Some 70, ws = Some 1,
                 lastSoundType = None, classification = None\<rparr>)]
   \<and> checkForMismatch True
        [(''d2'', \<lparr>lastSeen = Some 1000, d_tableId = Some ''T1'', lastNoise = None, ws = Some 2,
                 lastSoundType = None, classification = None\<rparr>),
         (''d1'', \<lparr>lastSeen = Some 2000, d_tableId = Some ''T1'', lastNoise = Some 70, ws = Some 1,
                 lastSoundType = None, classification = None\<rparr>)] ''d1''
       = [PossibleSensorIssue ''d1'' ''T1'' 70 [(''d2'', 0)]]
   \<and> snd (run [Message 2 (Json ((bare ''d2'')\<lparr>tableId := Some ''T1''\<rparr>)) 1000,
               Message 1 (Json (reading ''d1'' ''T1'' 70)) 2000] (listening True True))
       = [DeviceData ''d2'' (Some ''T1'') None ''unknown'' 1000,
          DeviceData ''d1'' (Some ''T1'') (Some 70) ''unknown'' 2000,
          NoiseExceed ''d1'' (Some ''T1'') (Some 70) ''unknown'' 2000,
          PossibleSensorIssue ''d1'' ''T1'' 70 [(''d2'', 0)]]"
  using undefined_peer_noise_is_zero [of
      "[(''d2'', \<lparr>lastSeen = Some 1000, d_tableId = Some ''T1'', lastNoise = None, ws = Some 2,
                 lastSoundType = None, classification = None\<rparr>),
        (''d1'', \<lparr>lastSeen = Some 2000, d_tableId = Some ''T1'', lastNoise = Some 70, ws = Some 1,
                 lastSoundType = None, classification = None\<rparr>)]"
      "''d1''"
      "\<lparr>lastSeen = Some 2000, d_tableId = Some ''T1'', lastNoise = Some 70, ws = Some 1,
                 lastSoundType = None, classification = None\<rparr>"
      "''T1''" "''d2''"
      "\<lparr>lastSeen = Some 1000, d_tableId = Some ''T1'', lastNoise = None, ws = Some 2,
                 lastSoundType = None, classification = None\<rparr>"]
  by (simp add: eval_defs)

section \<open>The inactivity sweep\<close>

lemma offline_events_window:
  "offline_events True now devs =
     map (\<lambda>(id, dev). DeviceOffline id (d_tableId dev)) (filter (\<lambda>(id, dev). silent now dev) devs)"
  by (induction devs) (auto simp: offline_events_def silent_def send_def split: option.splits if_splits)

lemma offline_events_no_window: "offline_events False now devs = []"
  by (induction devs) (auto simp: offline_events_def send_def split: option.splits)

lemma offline_sweep:
  "filter is_offline (snd (sweep now s)) = offline_events (mainWindow s) now (entries s)"
proof -
  have a: "filter is_offline (offline_events w now devs) = offline_events w now devs" for w devs
    by (cases w) (simp_all add: offline_events_window offline_events_no_window filter_map o_def split_def)
  have b: "filter is_offline (snd (ping_clients cs)) = []" for cs
    by (induction cs rule: ping_clients.induct) auto
  show ?thesis by (simp add: sweep_def a b)
qed

lemma entries_sweep: "entries (fst (sweep now s)) = entries s"
  by (simp add: entries_def sweep_def)

lemma silent_later: "silent now dev \<Longrightarrow> now \<le> later \<Longrightarrow> silent later dev"
  by (auto simp: silent_def split: option.splits)

lemma entry_kept_set_entry: "(d, e) \<in> set es \<Longrightarrow> k \<noteq> d \<Longrightarrow> (d, e) \<in> set (set_entry k v es)"
  by (auto simp: set_entry_def set_insert_entry intro!: rev_image_eqI)

lemma entry_kept_upsert:
  "(d, e) \<in> set (devices s) \<Longrightarrow> k \<noteq> d \<Longrightarrow> (d, e) \<in> set (devices (upsert now conn m k s))"
  by (simp add: upsert_def entry_kept_set_entry split: target.splits)

lemma entry_kept_step:
  assumes "(d, e) \<in> set (devices s)" "d \<notin> sighted x"
  shows "(d, e) \<in> set (devices (fst (step x s)))"
proof (cases x)
  case (Message c p now)
  with assms show ?thesis
    by (cases p) (auto simp: devices_on_message entry_kept_upsert split: option.splits if_splits)
qed (use assms in \<open>simp_all add: on_connection_def on_pong_def on_close_def devices_sweep\<close>)

lemma entry_kept_run:
  assumes "(d, e) \<in> set (devices s)" "\<forall>x \<in> set xs. d \<notin> sighted x"
  shows "(d, e) \<in> set (devices (fst (run xs s)))"
  using assms
proof (induction xs arbitrary: s)
  case Nil
  then show ?case by simp
next
  case (Cons x xs)
  then have "(d, e) \<in> set (devices (fst (step x s)))"
    by (intro entry_kept_step) auto
  with Cons show ?case by simp
qed

lemma object_entry_read: "(d, Obj dev) \<in> set (devices s) \<Longrightarrow> (d, dev) \<in> set (entries s)"
  by (force simp: entries_def fields_def)

lemma offline_member:
  "DeviceOffline d tb \<in> set (offline_events w now devs) \<Longrightarrow>
     \<exists>dev. (d, dev) \<in> set devs \<and> silent now dev"
  by (cases w) (auto simp: offline_events_window offline_events_no_window)

lemma unpolluted_not_primitive:
  "unpolluted s \<Longrightarrow> own_key d \<Longrightarrow> target_of s d \<noteq> APrimitive"
  by (simp add: unpolluted_target)

lemma object_target_after:
  assumes "accepted m d" "target_of s d \<noteq> APrimitive"
  shows "\<exists>v. fst (on_message now conn (Json m) s) = s\<lparr>devices := set_entry d (Obj v) (devices s)\<rparr>
             \<and> lastSeen v = Some now"
proof -
  from assms(1) have "target_of s d \<noteq> ThePrototype"
    by (simp add: accepted_def own_key_def target_of_def split: option.splits entry.splits)
  with assms(2) obtain old where "target_of s d = AnObject old"
    by (cases "target_of s d") auto
  with assms(1) have "fst (on_message now conn (Json m) s) =
      s\<lparr>devices := set_entry d
          (Obj (update_device now conn (soundClassifier s) (destructured s m) old)) (devices s)\<rparr>"
    by (simp add: accepted_def on_message_passes upsert_def)
  moreover have "lastSeen (update_device now conn (soundClassifier s) (destructured s m) old) = Some now"
    by (rule lastSeen_update_device)
  ultimately show ?thesis
    by blast
qed

lemma message_resets_silence:
  assumes "accepted m d" "target_of s d \<noteq> APrimitive" "later - now \<le> 15000"
  shows "DeviceOffline d tb \<notin> set (snd (sweep later (fst (on_message now conn (Json m) s))))"
proof
  assume "DeviceOffline d tb \<in> set (snd (sweep later (fst (on_message now conn (Json m) s))))"
  then have "DeviceOffline d tb \<in> set (filter is_offline (snd (sweep later (fst (on_message now conn (Json m) s)))))"
    by simp
  then obtain dev where dev: "(d, dev) \<in> set (entries (fst (on_message now conn (Json m) s)))"
      and sil: "silent later dev"
    unfolding offline_sweep by (blast dest: offline_member)
  from object_target_after [OF assms(1,2)] obtain v
    where v: "fst (on_message now conn (Json m) s) = s\<lparr>devices := set_entry d (Obj v) (devices s)\<rparr>"
      and seen: "lastSeen v = Some now"
    by blast
  have "entries (fst (on_message now conn (Json m) s)) = set_entry d v (entries s)"
    unfolding v by (simp add: entries_def map_set_entry [where f = "fields (prototype s)"] fields_Obj)
  with dev have "dev = v"
    by (auto dest: values_set_entry)
  with sil seen assms(3) show False
    by (simp add: silent_def INACTIVITY_MS_def)
qed

text \<open>
  Claim C6, as the specification has it: each inactivity sweep emits \<open>device_offline\<close>
  for exactly the registry devices whose \<open>lastSeen\<close> is more than 15000 ms back, and any
  accepted message from a device resets its eligibility. The send is guarded by
  \<open>if (mainWindow)\<close>: without a window, a device last seen at 1000 is not reported by the
  sweep at 17000, which sends nothing.

  Nor does every accepted message reset the eligibility, once a payload with the
  \<open>deviceId\<close> \<open>__proto__\<close> has been handled. Such a payload at time 1000 leaves its
  \<open>tableId\<close> \<open>T1\<close> and \<open>lastSeen = 1000\<close> on \<open>Object.prototype\<close>; a payload with the
  \<open>deviceId\<close> \<open>tableId\<close> at time 20000 then finds the string \<open>T1\<close> under its name, which
  becomes its entry and which no assignment changes; the sweep at 21000 reads
  \<open>lastSeen = 1000\<close> through it and reports the device offline.
\<close>

theorem offline_needs_window:
  "devices (fst (on_message 1000 1 (Json (reading ''d1'' ''T1'' 50)) (listening False True)))
     = [(''d1'', Obj \<lparr>lastSeen = Some 1000, d_tableId = Some ''T1'', lastNoise = Some 50, ws = Some 1,
                 lastSoundType = None, classification = None\<rparr>)]
   \<and> snd (sweep 17000 (fst (on_message 1000 1 (Json (reading ''d1'' ''T1'' 50)) (listening False True))))
     = []
   \<and> accepted (bare ''tableId'') ''tableId''
   \<and> devices (fst (run [Message 1 (Json ((bare ''__proto__'')\<lparr>tableId := Some ''T1''\<rparr>)) 1000,
                        Message 2 (Json (bare ''tableId'')) 20000] (listening True True)))
     = [(''tableId'', Prim)]
   \<and> snd (sweep 21000
        (fst (run [Message 1 (Json ((bare ''__proto__'')\<lparr>tableId := Some ''T1''\<rparr>)) 1000,
                   Message 2 (Json (bare ''tableId'')) 20000] (listening True True))))
     = [DeviceOffline ''tableId'' (Some ''T1'')]"
  by (simp add: eval_defs)

text \<open>
  Claim C6, amended: while the window exists, a sweep at time \<open>now\<close> emits one
  \<open>device_offline\<close> event, with \<open>deviceId\<close> and \<open>tableId\<close>, for exactly the registry entries
  that read as \<open>silent\<close> (\<open>lastSeen\<close> is set, not 0, and more than 15000 ms before \<open>now\<close>),
  in the order of the registry; while there is no window it emits none. The sweep leaves
  the registry as it is, so an entry that was silent is reported again by any later
  sweep, whatever happened in between, unless a payload with its \<open>deviceId\<close> was
  accepted (this of an entry that is an object, as every entry is while no payload with
  the \<open>deviceId\<close> \<open>__proto__\<close> has been handled); and after an accepted payload at time
  \<open>now\<close> whose fields go to an object, as they do while no payload with the \<open>deviceId\<close>
  \<open>__proto__\<close> has been handled, the device is not reported by a sweep up to 15000 ms
  later. The sweep is the callback of \<open>setInterval(..., 5000)\<close>; the period itself is
  outside the model.
\<close>

theorem inactivity_sweep:
  "(mainWindow s \<longrightarrow>
      filter is_offline (snd (sweep now s)) =
        map (\<lambda>(id, dev). DeviceOffline id (d_tableId dev))
          (filter (\<lambda>(id, dev). silent now dev) (entries s)))
   \<and> silent now dev = (\<exists>seen. lastSeen dev = Some seen \<and> seen \<noteq> 0 \<and> now - seen > 15000)
   \<and> (\<not> mainWindow s \<longrightarrow> filter is_offline (snd (sweep now s)) = [])
   \<and> devices (fst (sweep now s)) = devices s
   \<and> entries (fst (sweep now s)) = entries s
   \<and> ((d, Obj dev) \<in> set (devices s) \<and> silent now dev \<and> now \<le> later
        \<and> (\<forall>x \<in> set xs. d \<notin> sighted x) \<and> mainWindow (fst (run xs s)) \<longrightarrow>
          DeviceOffline d (d_tableId dev) \<in> set (snd (sweep later (fst (run xs s)))))
   \<and> (accepted m d \<and> target_of s d \<noteq> APrimitive \<and> later - now \<le> 15000 \<longrightarrow>
          DeviceOffline d tb \<notin> set (snd (sweep later (fst (on_message now conn (Json m) s)))))
   \<and> (unpolluted s \<longrightarrow>
          Prim \<notin> snd ` set (devices s) \<and> (own_key d \<longrightarrow> target_of s d \<noteq> APrimitive))"
proof (intro conjI impI)
  show "filter is_offline (snd (sweep now s)) =
        map (\<lambda>(id, dev). DeviceOffline id (d_tableId dev))
          (filter (\<lambda>(id, dev). silent now dev) (entries s))" if "mainWindow s"
    using that by (simp add: offline_sweep offline_events_window)
  show "silent now dev = (\<exists>seen. lastSeen dev = Some seen \<and> seen \<noteq> 0 \<and> now - seen > 15000)"
    by (simp add: silent_def INACTIVITY_MS_def split: option.splits)
  show "filter is_offline (snd (sweep now s)) = []" if "\<not> mainWindow s"
    using that by (simp add: offline_sweep offline_events_no_window)
  show "devices (fst (sweep now s)) = devices s"
    by (rule devices_sweep)
  show "entries (fst (sweep now s)) = entries s"
    by (rule entries_sweep)
  show "DeviceOffline d (d_tableId dev) \<in> set (snd (sweep later (fst (run xs s))))"
    if h: "(d, Obj dev) \<in> set (devices s) \<and> silent now dev \<and> now \<le> later
        \<and> (\<forall>x \<in> set xs. d \<notin> sighted x) \<and> mainWindow (fst (run xs s))"
  proof -
    from h have "(d, Obj dev) \<in> set (devices (fst (run xs s)))"
      by (intro entry_kept_run) auto
    then have "(d, dev) \<in> set (entries (fst (run xs s)))"
      by (rule object_entry_read)
    moreover from h have "silent later dev"
      by (auto intro: silent_later)
    ultimately have "DeviceOffline d (d_tableId dev)
        \<in> set (offline_events True later (entries (fst (run xs s))))"
      by (force simp: offline_events_window)
    with h show ?thesis by (simp add: sweep_def)
  qed
  show "DeviceOffline d tb \<notin> set (snd (sweep later (fst (on_message now conn (Json m) s))))"
    if "accepted m d \<and> target_of s d \<noteq> APrimitive \<and> later - now \<le> 15000"
    using that by (intro message_resets_silence) auto
  show "Prim \<notin> snd ` set (devices s)" if "unpolluted s"
    using that by (simp add: unpolluted_def)
  show "target_of s d \<noteq> APrimitive" if "unpolluted s" "own_key d"
    using that by (rule unpolluted_not_primitive)
qed

theorem inactivity_sweep_witness:
  "filter is_offline (snd (sweep 17000
       (fst (on_message 1000 1 (Json (reading ''d1'' ''T1'' 50)) (listening True True)))))
     = [DeviceOffline ''d1'' (Some ''T1'')]
   \<and> filter is_offline (snd (sweep 16000
       (fst (on_message 1000 1 (Json (reading ''d1'' ''T1'' 50)) (listening True True)))))
     = []
   \<and> DeviceOffline ''d1'' (Some ''T1'') \<in> set (snd (sweep 22000 (fst (run [Sweep 17000, Close 1]
       (fst (on_message 1000 1 (Json (reading ''d1'' ''T1'' 50)) (listening True True)))))))
   \<and> accepted (reading ''d1'' ''T1'' 50) ''d1''
   \<and> unpolluted (fst (on_message 1000 1 (Json (reading ''d1'' ''T1'' 50)) (listening True True)))
   \<and> DeviceOffline ''d1'' (Some ''T1'') \<notin> set (snd (sweep 22000
       (fst (on_message 20000 1 (Json (reading ''d1'' ''T1'' 50))
          (fst (on_message 1000 1 (Json (reading ''d1'' ''T1'' 50)) (listening True True)))))))
   \<and> filter is_offline (snd (sweep 17000
       (fst (on_message 1000 1 (Json (reading ''d1'' ''T1'' 50)) (listening False True)))))
     = []"
proof -
  let ?dev = "\<lparr>lastSeen = Some 1000, d_tableId = Some ''T1'', lastNoise = Some 50, ws = Some 1,
                lastSoundType = None, classification = None\<rparr>"
  have a: "accepted (reading ''d1'' ''T1'' 50) ''d1''"
    by (simp add: accepted_def reading_def own_key_def)
  have s: "fst (on_message 1000 1 (Json (reading ''d1'' ''T1'' 50)) (listening w True))
     = \<lparr>devices = [(''d1'', Obj ?dev)], prototype = empty_device, clients = [], mainWindow = w,
        soundClassifier = \<lparr>initialized = True\<rparr>\<rparr>" for w
    by (simp add: eval_defs)
  have u: "unpolluted (fst (on_message 1000 1 (Json (reading ''d1'' ''T1'' 50)) (listening True True)))"
    unfolding s by (simp add: unpolluted_def)
  have "filter is_offline (snd (sweep 17000
       (fst (on_message 1000 1 (Json (reading ''d1'' ''T1'' 50)) (listening True True)))))
     = [DeviceOffline ''d1'' (Some ''T1'')]"
    using inactivity_sweep [where s = "fst (on_message 1000 1 (Json (reading ''d1'' ''T1'' 50)) (listening True True))"
        and now = 17000 and dev = ?dev and d = "''d1''" and later = 22000 and xs = "[]"
        and m = "reading ''d1'' ''T1'' 50" and conn = 1 and tb = "Some ''T1''"]
    unfolding s by (simp add: eval_defs silent_def)
  moreover have "filter is_offline (snd (sweep 16000
       (fst (on_message 1000 1 (Json (reading ''d1'' ''T1'' 50)) (listening True True)))))
     = []"
    using inactivity_sweep [where s = "fst (on_message 1000 1 (Json (reading ''d1'' ''T1'' 50)) (listening True True))"
        and now = 16000 and dev = ?dev and d = "''d1''" and later = 22000 and xs = "[]"
        and m = "reading ''d1'' ''T1'' 50" and conn = 1 and tb = "Some ''T1''"]
    unfolding s by (simp add: eval_defs silent_def)
  moreover have "DeviceOffline ''d1'' (Some ''T1'') \<in> set (snd (sweep 22000 (fst (run [Sweep 17000, Close 1]
       (fst (on_message 1000 1 (Json (reading ''d1'' ''T1'' 50)) (listening True True)))))))"
    using inactivity_sweep [where s = "fst (on_message 1000 1 (Json (reading ''d1'' ''T1'' 50)) (listening True True))"
        and now = 17000 and dev = ?dev and d = "''d1''" and later = 22000 and xs = "[Sweep 17000, Close 1]"
        and m = "reading ''d1'' ''T1'' 50" and conn = 1 and tb = "Some ''T1''"]
    unfolding s by (simp add: eval_defs silent_def on_close_def)
  moreover have "DeviceOffline ''d1'' (Some ''T1'') \<notin> set (snd (sweep 22000
       (fst (on_message 20000 1 (Json (reading ''d1'' ''T1'' 50))
          (fst (on_message 1000 1 (Json (reading ''d1'' ''T1'' 50)) (listening True True)))))))"
    using a u
      inactivity_sweep [where s = "fst (on_message 1000 1 (Json (reading ''d1'' ''T1'' 50)) (listening True True))"
        and now = 20000 and dev = ?dev and d = "''d1''" and later = 22000 and xs = "[]"
        and m = "reading ''d1'' ''T1'' 50" and conn = 1 and tb = "Some ''T1''"]
    by (simp add: own_key_def)
  moreover have "filter is_offline (snd (sweep 17000
       (fst (on_message 1000 1 (Json (reading ''d1'' ''T1'' 50)) (listening False True)))))
     = []"
    using inactivity_sweep [where s = "fst (on_message 1000 1 (Json (reading ''d1'' ''T1'' 50)) (listening False True))"
        and now = 17000 and dev = ?dev and d = "''d1''" and later = 22000 and xs = "[]"
        and m = "reading ''d1'' ''T1'' 50" and conn = 1 and tb = "Some ''T1''"]
    unfolding s by simp
  ultimately show ?thesis
    using a u by simp
qed

end
